theory Spec2Isabelle
  imports Main "HOL-Library.Product_Lexorder" "HOL-Library.Sublist" "HOL-Library.AList"
begin

section \<open>vmchecker: submission intake, storage, bundling and the queue watcher\<close>

text \<open>
  A shallow embedding of \<^verbatim>\<open>vmchecker/submit.py\<close> and \<^verbatim>\<open>bin/queue_manager.py\<close>.
  Every function takes the state of the machine it runs on (a \<open>world\<close>) and returns its
  result together with the state it leaves behind; a Python exception is the \<open>Inl\<close>
  branch of the result. The modules \<^verbatim>\<open>config\<close>, \<^verbatim>\<open>paths\<close>, \<^verbatim>\<open>ziputil\<close>,
  \<^verbatim>\<open>submissions\<close>, \<^verbatim>\<open>tempfileutil\<close> and \<^verbatim>\<open>courselist\<close> are imported by
  \<^verbatim>\<open>submit.py\<close> but their sources are not available; what is used of them is either a
  field of the records \<open>vmcfg\<close> and \<open>deps\<close> below or a definition marked as modelled from
  the specification.
\<close>

subsection \<open>Data\<close>

text \<open>A path is the list of its components; \<^verbatim>\<open>os.path.join\<close> is \<open>@\<close>.\<close>

type_synonym path = "string list"

text \<open>
  \<^verbatim>\<open>time.struct_time\<close> is a tuple of nine integers (year, month, day, hour, minute,
  second, weekday, day of the year, dst flag) and Python compares two of them as tuples,
  that is lexicographically. A \<^verbatim>\<open>datetime\<close> is a number of microseconds and a
  \<^verbatim>\<open>timedelta\<close> a difference of two such numbers.
\<close>

type_synonym struct_time = "int \<times> int \<times> int \<times> int \<times> int \<times> int \<times> int \<times> int \<times> int"
type_synonym datetime = int
type_synonym timedelta = int

text \<open>
  A \<^verbatim>\<open>RawConfigParser\<close>: sections in the order they were added, each with its options in
  the order they were set.
\<close>

type_synonym config_parser = "(string \<times> (string \<times> string) list) list"

text \<open>
  What a file holds: its bytes, or a zip archive with its entries (name and contents)
  in order.
\<close>

datatype content =
    Raw string
  | Zip "(string \<times> content) list"

datatype node = Dir | File content

text \<open>The exceptions that the modelled code raises or lets through.\<close>

datatype error =
    SubmitedTooSoonError (message: string)
  | IOError
  | OSError
  | ValueError
  | BadZipfile
  | UnsafeArchiveRejected
  | CalledProcessError int
  | ShutilError
  | SocketError
  | SSHException

text \<open>The name of the Python class of an exception: its kind, as a caller can catch it.\<close>

fun exception_class :: "error \<Rightarrow> string" where
  "exception_class (SubmitedTooSoonError m) = ''SubmitedTooSoonError''"
| "exception_class IOError = ''IOError''"
| "exception_class OSError = ''OSError''"
| "exception_class ValueError = ''ValueError''"
| "exception_class BadZipfile = ''BadZipfile''"
| "exception_class UnsafeArchiveRejected = ''UnsafeArchiveRejected''"
| "exception_class (CalledProcessError n) = ''CalledProcessError''"
| "exception_class ShutilError = ''shutil.Error''"
| "exception_class SocketError = ''socket.error''"
| "exception_class SSHException = ''SSHException''"

text \<open>How the network and the tester machine answer an upload over ssh.\<close>

datatype net_state = Net_up | Connect_refused | Auth_rejected | Put_failed

text \<open>
  The state of a machine: its file system, the names that \<^verbatim>\<open>tempfile\<close> will try next,
  the clock, the processes launched so far (argument vector and working directory), the
  directories that are git work trees with the commits made in them (working directory
  and message), the held assignment locks, and the tester's queue as seen through sftp.
\<close>

record world =
  fs :: "path \<rightharpoonup> node"
  temp_names :: "string list"
  clock :: datetime
  proc_log :: "(string list \<times> path) list"
  repos :: "path list"
  commits :: "(path \<times> string) list"
  locks :: "string list"
  net :: net_state
  remote :: "path \<rightharpoonup> content"

text \<open>
  \<^verbatim>\<open>config.CourseConfig\<close>, with the accessors that \<^verbatim>\<open>submit.py\<close> calls:
  \<open>asg_machine a\<close> is \<^verbatim>\<open>assignments().get(a, 'Machine')\<close>, \<open>asg_timedelta a\<close> is
  \<^verbatim>\<open>assignments().timedelta(a)\<close>, \<open>asg_tests_path a\<close> is
  \<^verbatim>\<open>assignments().tests_path(vmpaths, a)\<close>, \<open>build_script m\<close>, \<open>run_script m\<close> and
  \<open>tester m\<close> are \<^verbatim>\<open>get(m, 'BuildScript')\<close>, \<^verbatim>\<open>get(m, 'RunScript')\<close> and
  \<^verbatim>\<open>get(m, 'Tester')\<close>, and the last three fields are the \<^verbatim>\<open>testers()\<close> table.
\<close>

record vmcfg =
  root_path :: path
  storer_username :: string
  storer_hostname :: string
  storer_sshid :: path
  upload_active_interval :: "struct_time \<times> struct_time"
  asg_machine :: "string \<Rightarrow> string"
  asg_timedelta :: "string \<Rightarrow> timedelta"
  asg_tests_path :: "string \<Rightarrow> path"
  build_script :: "string \<Rightarrow> path"
  run_script :: "string \<Rightarrow> path"
  tester :: "string \<Rightarrow> string"
  login_username :: "string \<Rightarrow> string"
  hostname :: "string \<Rightarrow> string"
  queue_path :: "string \<Rightarrow> path"

text \<open>
  The functions of the unavailable modules and of the standard library that the code
  under study only calls: \<^verbatim>\<open>CourseList().course_config\<close> followed by
  \<^verbatim>\<open>config.CourseConfig\<close>, the methods of \<^verbatim>\<open>paths.VmcheckerPaths\<close> (each
  takes the root path of the course first) and \<^verbatim>\<open>paths.dir_submission_results\<close>,
  the two queries of \<^verbatim>\<open>submissions.Submissions\<close>, and
  \<^verbatim>\<open>time.strptime\<close>, \<^verbatim>\<open>time.strftime\<close> (both at \<^verbatim>\<open>config.DATE_FORMAT\<close>),
  \<^verbatim>\<open>time.localtime\<close> and \<^verbatim>\<open>str\<close> of a \<^verbatim>\<open>timedelta\<close>. \<open>strptime\<close> is
  \<open>None\<close> where Python raises \<^verbatim>\<open>ValueError\<close>.
\<close>

record deps =
  course_config :: "string \<Rightarrow> vmcfg"
  dir_submission_root :: "path \<Rightarrow> string \<Rightarrow> string \<Rightarrow> path"
  dir_submission_results :: "path \<Rightarrow> string"
  dir_backup :: "path \<Rightarrow> path"
  dir_unchecked :: "path \<Rightarrow> path"
  config_file :: "path \<Rightarrow> path"
  abspath :: "path \<Rightarrow> path \<Rightarrow> path"
  submission_exists :: "world \<Rightarrow> vmcfg \<Rightarrow> string \<Rightarrow> string \<Rightarrow> bool"
  get_upload_time :: "world \<Rightarrow> vmcfg \<Rightarrow> string \<Rightarrow> string \<Rightarrow> datetime option"
  strptime :: "string \<Rightarrow> struct_time option"
  strftime :: "struct_time \<Rightarrow> string"
  localtime :: "datetime \<Rightarrow> struct_time"
  str_timedelta :: "timedelta \<Rightarrow> string"

subsection \<open>The file system\<close>

text \<open>
  The calls of \<^verbatim>\<open>os\<close>, \<^verbatim>\<open>shutil\<close> and \<^verbatim>\<open>tempfile\<close> that the code makes. Each
  returns the world it leaves behind, also when it raises.
\<close>

definition path_exists :: "world \<Rightarrow> path \<Rightarrow> bool" where
  "path_exists w p = (fs w p \<noteq> None)"

definition is_file :: "world \<Rightarrow> path \<Rightarrow> bool" where
  "is_file w q = (case fs w q of Some (File c) \<Rightarrow> True | _ \<Rightarrow> False)"

text \<open>
  \<^verbatim>\<open>os.makedirs(p)\<close> creates \<open>p\<close> and its missing ancestors; it raises
  \<^verbatim>\<open>OSError\<close> when \<open>p\<close> exists already or an ancestor is a file.
\<close>

definition makedirs :: "path \<Rightarrow> world \<Rightarrow> (error + unit) \<times> world" where
  "makedirs p w =
     (if path_exists w p then (Inl OSError, w)
      else if list_ex (is_file w) (prefixes p) then (Inl OSError, w)
      else (Inr (), w\<lparr>fs := (\<lambda>q. if prefix q p \<and> fs w q = None then Some Dir else fs w q)\<rparr>))"

text \<open>
  \<^verbatim>\<open>open(p, 'w')\<close> followed by a write of the whole contents: \<^verbatim>\<open>IOError\<close> when the
  parent is not a directory or \<open>p\<close> is one.
\<close>

definition write_file :: "path \<Rightarrow> content \<Rightarrow> world \<Rightarrow> (error + unit) \<times> world" where
  "write_file p c w =
     (if p = [] then (Inl IOError, w)
      else if fs w (butlast p) = Some Dir \<and> fs w p \<noteq> Some Dir
      then (Inr (), w\<lparr>fs := (fs w)(p \<mapsto> File c)\<rparr>)
      else (Inl IOError, w))"

text \<open>
  \<^verbatim>\<open>shutil.copyfile(src, dst)\<close>: \<^verbatim>\<open>shutil.Error\<close> when both are the same file,
  \<^verbatim>\<open>IOError\<close> when \<open>src\<close> cannot be read or \<open>dst\<close> cannot be written.
\<close>

definition copyfile :: "path \<Rightarrow> path \<Rightarrow> world \<Rightarrow> (error + unit) \<times> world" where
  "copyfile src dst w =
     (if src = dst \<and> path_exists w src then (Inl ShutilError, w)
      else case fs w src of
             Some (File c) \<Rightarrow> write_file dst c w
           | _ \<Rightarrow> (Inl IOError, w))"

text \<open>
  \<^verbatim>\<open>shutil.rmtree(p)\<close> removes the directory \<open>p\<close> with everything below it and raises
  \<^verbatim>\<open>OSError\<close> when \<open>p\<close> is not a directory.
\<close>

definition rmtree :: "path \<Rightarrow> world \<Rightarrow> (error + unit) \<times> world" where
  "rmtree p w =
     (if fs w p = Some Dir
      then (Inr (), w\<lparr>fs := (\<lambda>q. if prefix p q then None else fs w q)\<rparr>)
      else (Inl OSError, w))"

text \<open>
  \<^verbatim>\<open>tempfile\<close> tries the candidate names in turn and takes the first that does not
  exist in the directory; the name is the prefix, the random part and the suffix.
\<close>

fun unused_name :: "world \<Rightarrow> path \<Rightarrow> string \<Rightarrow> string \<Rightarrow> string list \<Rightarrow> (path \<times> string list) option" where
  "unused_name w dir pre suf [] = None"
| "unused_name w dir pre suf (n # ns) =
     (if fs w (dir @ [pre @ n @ suf]) = None then Some (dir @ [pre @ n @ suf], ns)
      else unused_name w dir pre suf ns)"

text \<open>
  \<^verbatim>\<open>mkdtemp(prefix=pre, dir=dir)\<close> makes a new directory and \<^verbatim>\<open>mkstemp(suffix=suf,
  prefix=pre, dir=dir)\<close> a new empty file; both return its path and raise \<^verbatim>\<open>OSError\<close>
  when \<open>dir\<close> is not a directory and \<^verbatim>\<open>IOError\<close> when no candidate name is free.
  \<^verbatim>\<open>tempfileutil\<close> is taken to pass its arguments to \<^verbatim>\<open>tempfile\<close>.
\<close>

definition mkdtemp :: "string \<Rightarrow> path \<Rightarrow> world \<Rightarrow> (error + path) \<times> world" where
  "mkdtemp pre dir w =
     (if fs w dir = Some Dir
      then (case unused_name w dir pre [] (temp_names w) of
              None \<Rightarrow> (Inl IOError, w\<lparr>temp_names := []\<rparr>)
            | Some (p, ns) \<Rightarrow> (Inr p, w\<lparr>fs := (fs w)(p \<mapsto> Dir), temp_names := ns\<rparr>))
      else (Inl OSError, w))"

definition mkstemp :: "string \<Rightarrow> string \<Rightarrow> path \<Rightarrow> world \<Rightarrow> (error + path) \<times> world" where
  "mkstemp suf pre dir w =
     (if fs w dir = Some Dir
      then (case unused_name w dir pre suf (temp_names w) of
              None \<Rightarrow> (Inl IOError, w\<lparr>temp_names := []\<rparr>)
            | Some (p, ns) \<Rightarrow> (Inr p, w\<lparr>fs := (fs w)(p \<mapsto> File (Raw [])), temp_names := ns\<rparr>))
      else (Inl OSError, w))"

subsection \<open>The layout of a backup\<close>

text \<open>
  Modelled from the spec: the three path functions of the unavailable module
  \<^verbatim>\<open>paths\<close> that name the compartments of a backup directory. The specification gives
  the layout as \<^verbatim>\<open>archive/\<close>, \<^verbatim>\<open>submission-config\<close> and \<^verbatim>\<open>archive.zip\<close> below the
  backup directory, as does the comment of \<^verbatim>\<open>submission_backup\<close>.
\<close>

definition dir_submission_expanded_archive :: "path \<Rightarrow> path" where
  "dir_submission_expanded_archive back_dir = back_dir @ [''archive'']"

definition submission_config_file :: "path \<Rightarrow> path" where
  "submission_config_file back_dir = back_dir @ [''submission-config'']"

definition submission_archive_file :: "path \<Rightarrow> path" where
  "submission_archive_file back_dir = back_dir @ [''archive.zip'']"

subsection \<open>The descriptor of a submission\<close>

text \<open>
  \<^verbatim>\<open>str.isspace\<close> and \<^verbatim>\<open>str.lower\<close> on the characters of a byte string:
  the white space is the space and the characters 9 to 13, and only the letters
  \<^verbatim>\<open>A\<close> to \<^verbatim>\<open>Z\<close> have a lower case.
\<close>

definition isspace :: "char \<Rightarrow> bool" where
  "isspace c = (c \<in> set [CHR '' '', CHR 0x09, CHR 0x0A, CHR 0x0B, CHR 0x0C, CHR 0x0D])"

definition lower_char :: "char \<Rightarrow> char" where
  "lower_char c =
     (case map_of (zip ''ABCDEFGHIJKLMNOPQRSTUVWXYZ'' ''abcdefghijklmnopqrstuvwxyz'') c of
        Some l \<Rightarrow> l
      | None \<Rightarrow> c)"

definition lower :: "string \<Rightarrow> string" where
  "lower s = map lower_char s"

text \<open>
  \<^verbatim>\<open>add_section\<close>, \<^verbatim>\<open>set\<close> and \<^verbatim>\<open>get\<close> of \<^verbatim>\<open>RawConfigParser\<close>. Both
  \<^verbatim>\<open>set\<close> and \<^verbatim>\<open>get\<close> pass the name of the option through \<^verbatim>\<open>optionxform\<close>, which
  is \<^verbatim>\<open>str.lower\<close>; \<^verbatim>\<open>get\<close> is \<open>None\<close> where Python raises
  \<^verbatim>\<open>NoSectionError\<close> or \<^verbatim>\<open>NoOptionError\<close>. The section \<^verbatim>\<open>DEFAULT\<close> is not
  treated apart: the descriptor has no such section.
\<close>

definition add_section :: "string \<Rightarrow> config_parser \<Rightarrow> config_parser" where
  "add_section s cp = cp @ [(s, [])]"

definition section_update ::
    "string \<Rightarrow> ((string \<times> string) list \<Rightarrow> (string \<times> string) list) \<Rightarrow> config_parser \<Rightarrow> config_parser" where
  "section_update s f cp = map (\<lambda>sec. if fst sec = s then (fst sec, f (snd sec)) else sec) cp"

definition set_option :: "string \<Rightarrow> string \<Rightarrow> string \<Rightarrow> config_parser \<Rightarrow> config_parser" where
  "set_option s k v cp = section_update s (AList.update (lower k) v) cp"

definition lookup_option :: "config_parser \<Rightarrow> string \<Rightarrow> string \<Rightarrow> string option" where
  "lookup_option cp s k = (case map_of cp s of None \<Rightarrow> None | Some opts \<Rightarrow> map_of opts k)"

definition get_option :: "config_parser \<Rightarrow> string \<Rightarrow> string \<Rightarrow> string option" where
  "get_option cp s k = lookup_option cp s (lower k)"

text \<open>\<^verbatim>\<open>submission_config\<close>, lines 43 to 71.\<close>

definition submission_config ::
    "string \<Rightarrow> string \<Rightarrow> string \<Rightarrow> string \<Rightarrow> string \<Rightarrow> string \<Rightarrow> string \<Rightarrow> config_parser" where
  "submission_config user assignment course_id upload_time
       storer_result_dir storer_username' storer_hostname' =
     (let sbcfg = [];
          sbcfg = add_section ''Assignment'' sbcfg;
          sbcfg = set_option ''Assignment'' ''User'' user sbcfg;
          sbcfg = set_option ''Assignment'' ''Assignment'' assignment sbcfg;
          sbcfg = set_option ''Assignment'' ''UploadTime'' upload_time sbcfg;
          sbcfg = set_option ''Assignment'' ''CourseID'' course_id sbcfg;
          sbcfg = set_option ''Assignment'' ''ResultsDest'' storer_result_dir sbcfg;
          sbcfg = set_option ''Assignment'' ''RemoteUsername'' storer_username' sbcfg;
          sbcfg = set_option ''Assignment'' ''RemoteHostname'' storer_hostname' sbcfg
      in sbcfg)"

text \<open>\<^verbatim>\<open>submission_backup_prefix\<close>, lines 75 to 82.\<close>

definition submission_backup_prefix :: "string \<Rightarrow> string \<Rightarrow> string \<Rightarrow> string \<Rightarrow> string" where
  "submission_backup_prefix course_id assignment user upload_time =
     course_id @ ''_'' @ assignment @ ''_'' @ user @ ''_'' @ upload_time @ ''_''"

subsection \<open>Expanding an archive\<close>

text \<open>The segments of an entry name, split at every \<^verbatim>\<open>/\<close>.\<close>

fun split_on :: "char \<Rightarrow> string \<Rightarrow> string list" where
  "split_on c [] = [[]]"
| "split_on c (x # xs) =
     (if x = c then [] # split_on c xs
      else (case split_on c xs of [] \<Rightarrow> [[x]] | s # ss \<Rightarrow> (x # s) # ss))"

text \<open>
  Modelled from the spec: when an entry of an archive is unsafe. The source of
  \<^verbatim>\<open>ziputil\<close> is not available; the specification rejects entries with an absolute
  path or a parent-directory traversal segment (\<^verbatim>\<open>..\<close>).
\<close>

definition unsafe_entry :: "string \<Rightarrow> bool" where
  "unsafe_entry name = (take 1 name = ''/'' \<or> ''..'' \<in> set (split_on CHR ''/'' name))"

definition segments :: "string \<Rightarrow> path" where
  "segments name = filter (\<lambda>s. s \<noteq> [] \<and> s \<noteq> ''.'') (split_on CHR ''/'' name)"

definition ensure_dir :: "path \<Rightarrow> world \<Rightarrow> (error + unit) \<times> world" where
  "ensure_dir p w = (if fs w p = Some Dir then (Inr (), w) else makedirs p w)"

text \<open>
  Modelled from the spec: writing the entries of an archive below a directory, in
  order, each at the path that its segments name; an entry without a segment names
  the directory itself and writes nothing.
\<close>

fun extract_entries :: "path \<Rightarrow> (string \<times> content) list \<Rightarrow> world \<Rightarrow> (error + unit) \<times> world" where
  "extract_entries dest [] w = (Inr (), w)"
| "extract_entries dest ((name, c) # es) w =
     (if segments name = [] then extract_entries dest es w
      else case ensure_dir (dest @ butlast (segments name)) w of
             (Inl e, w') \<Rightarrow> (Inl e, w')
           | (Inr u, w') \<Rightarrow>
               (case write_file (dest @ segments name) c w' of
                  (Inl e, w'') \<Rightarrow> (Inl e, w'')
                | (Inr u', w'') \<Rightarrow> extract_entries dest es w''))"

text \<open>
  Modelled from the spec: \<^verbatim>\<open>ziputil.unzip_safely(archive_filename, dest)\<close>, whose
  source is not available. The specification has it expand the archive into the
  expansion compartment and reject an archive with an unsafe entry as a whole, with
  no partial expansion: every entry is checked before the first is written.
\<close>

definition unzip_safely :: "path \<Rightarrow> path \<Rightarrow> world \<Rightarrow> (error + unit) \<times> world" where
  "unzip_safely archive_filename dest w =
     (case fs w archive_filename of
        Some (File (Zip entries)) \<Rightarrow>
          if list_ex (\<lambda>e. unsafe_entry (fst e)) entries then (Inl UnsafeArchiveRejected, w)
          else (case ensure_dir dest w of
                  (Inl e, w') \<Rightarrow> (Inl e, w')
                | (Inr u, w') \<Rightarrow> extract_entries dest entries w')
      | Some (File c) \<Rightarrow> (Inl BadZipfile, w)
      | _ \<Rightarrow> (Inl IOError, w))"

subsection \<open>The text of a configuration file\<close>

text \<open>
  \<^verbatim>\<open>RawConfigParser.write\<close>: for every section its header, one line
  \<^verbatim>\<open>name = value\<close> for every option, with a tab put after every line feed of the
  value, and an empty line.
\<close>

definition replace_newlines :: "string \<Rightarrow> string" where
  "replace_newlines v = concat (map (\<lambda>c. if c = CHR 0x0A then [CHR 0x0A, CHR 0x09] else [c]) v)"

definition write_option :: "string \<times> string \<Rightarrow> string" where
  "write_option kv = fst kv @ '' = '' @ replace_newlines (snd kv) @ [CHR 0x0A]"

definition write_section :: "string \<times> (string \<times> string) list \<Rightarrow> string" where
  "write_section sec =
     ''['' @ fst sec @ '']'' @ [CHR 0x0A] @ concat (map write_option (snd sec)) @ [CHR 0x0A]"

definition config_write :: "config_parser \<Rightarrow> string" where
  "config_write cp = concat (map write_section cp)"

text \<open>\<^verbatim>\<open>str.lstrip\<close>, \<^verbatim>\<open>str.rstrip\<close> and \<^verbatim>\<open>str.strip\<close>.\<close>

definition lstrip :: "string \<Rightarrow> string" where
  "lstrip s = dropWhile isspace s"

definition rstrip :: "string \<Rightarrow> string" where
  "rstrip s = rev (dropWhile isspace (rev s))"

definition strip :: "string \<Rightarrow> string" where
  "strip s = rstrip (lstrip s)"

text \<open>
  The two patterns of \<^verbatim>\<open>RawConfigParser\<close>, matched at the start of a line. A section
  header is \<^verbatim>\<open>[\<close>, one or more characters other than \<^verbatim>\<open>]\<close>, and \<^verbatim>\<open>]\<close>. An
  option line is a name that does not start with white space and runs up to the first
  \<^verbatim>\<open>:\<close> or \<^verbatim>\<open>=\<close>, that separator, and the value, which starts after the white
  space that follows the separator.
\<close>

definition match_section :: "string \<Rightarrow> string option" where
  "match_section line =
     (case line of
        [] \<Rightarrow> None
      | c # rest \<Rightarrow>
          if c = CHR ''['' \<and> takeWhile (\<lambda>x. x \<noteq> CHR '']'') rest \<noteq> []
               \<and> dropWhile (\<lambda>x. x \<noteq> CHR '']'') rest \<noteq> []
          then Some (takeWhile (\<lambda>x. x \<noteq> CHR '']'') rest)
          else None)"

definition match_option :: "string \<Rightarrow> (string \<times> string) option" where
  "match_option line =
     (case takeWhile (\<lambda>x. x \<noteq> CHR '':'' \<and> x \<noteq> CHR ''='') line of
        [] \<Rightarrow> None
      | c # name \<Rightarrow>
          (case dropWhile (\<lambda>x. x \<noteq> CHR '':'' \<and> x \<noteq> CHR ''='') line of
             [] \<Rightarrow> None
           | vi # rest \<Rightarrow> if isspace c then None else Some (c # name, lstrip rest)))"

text \<open>
  A \<^verbatim>\<open>;\<close> in the value of an option line starts a comment when the character before
  the first \<^verbatim>\<open>;\<close> is white space (\<^verbatim>\<open>optval[pos-1]\<close>, which for \<^verbatim>\<open>pos = 0\<close> is
  the last character of the value).
\<close>

definition cut_comment :: "string \<Rightarrow> string" where
  "cut_comment optval =
     (if CHR '';'' \<in> set optval
      then (let pos = length (takeWhile (\<lambda>x. x \<noteq> CHR '';'') optval)
            in if isspace (if pos = 0 then last optval else optval ! (pos - 1))
               then take pos optval else optval)
      else optval)"

definition option_value :: "string \<Rightarrow> string" where
  "option_value optval =
     (let optval = strip (cut_comment optval)
      in if optval = [CHR 0x22, CHR 0x22] then [] else optval)"

text \<open>
  One step of the loop of \<^verbatim>\<open>RawConfigParser._read\<close>, on a line without its line
  feed. The state is the parser, the name of the current section and the name of the
  current option. Blank lines, comment lines and \<^verbatim>\<open>rem\<close> lines are skipped; a line
  that starts with white space continues the value of the current option; a section
  header opens its section; an option line sets its option in the current section.
  The result is \<open>None\<close> where Python raises \<^verbatim>\<open>MissingSectionHeaderError\<close> or,
  after the last line, \<^verbatim>\<open>ParsingError\<close>.
\<close>

type_synonym reader_state = "config_parser \<times> string option \<times> string option"

definition read_option_line :: "string \<Rightarrow> config_parser \<Rightarrow> string option \<Rightarrow> reader_state option" where
  "read_option_line line cp cursect =
     (case cursect of
        None \<Rightarrow> None
      | Some s \<Rightarrow>
          (case match_option line of
             None \<Rightarrow> None
           | Some (name, optval) \<Rightarrow>
               Some (section_update s (AList.update (lower (rstrip name)) (option_value optval)) cp,
                     cursect, Some (lower (rstrip name)))))"

definition read_line :: "string \<Rightarrow> reader_state \<Rightarrow> reader_state option" where
  "read_line line st =
     (case st of (cp, cursect, optname) \<Rightarrow>
        case line of
          [] \<Rightarrow> Some st
        | c # rest \<Rightarrow>
            if strip line = [] then Some st
            else if c = CHR ''#'' \<or> c = CHR '';'' then Some st
            else if lower (takeWhile (\<lambda>x. \<not> isspace x) (lstrip line)) = ''rem''
                    \<and> (c = CHR ''r'' \<or> c = CHR ''R'') then Some st
            else (case (isspace c, cursect, optname) of
                    (True, Some s, Some name) \<Rightarrow>
                      Some (section_update s
                              (AList.map_entry name (\<lambda>v. v @ [CHR 0x0A] @ strip line)) cp,
                            cursect, optname)
                  | _ \<Rightarrow>
                      (case match_section line of
                         Some sectname \<Rightarrow>
                           Some (if map_of cp sectname = None then cp @ [(sectname, [])] else cp,
                                 Some sectname, None)
                       | None \<Rightarrow> read_option_line line cp cursect)))"

fun read_lines :: "string list \<Rightarrow> reader_state \<Rightarrow> reader_state option" where
  "read_lines [] st = Some st"
| "read_lines (line # lines) st =
     (case read_line line st of
        None \<Rightarrow> None
      | Some st' \<Rightarrow> read_lines lines st')"

text \<open>\<^verbatim>\<open>RawConfigParser.read\<close> on the text of a file.\<close>

definition config_read :: "string \<Rightarrow> config_parser option" where
  "config_read text =
     (case read_lines (split_on CHR 0x0A text) ([], None, None) of
        None \<Rightarrow> None
      | Some st \<Rightarrow> Some (fst st))"

text \<open>Decoding an option from what a file holds: read the text, then \<^verbatim>\<open>get\<close>.\<close>

definition decode_option :: "content \<Rightarrow> string \<Rightarrow> string \<Rightarrow> string option" where
  "decode_option c s k =
     (case c of
        Raw text \<Rightarrow>
          (case config_read text of
             None \<Rightarrow> None
           | Some cp \<Rightarrow> get_option cp s k)
      | Zip entries \<Rightarrow> None)"

text \<open>
  A value that the reader gives back as it was written: it has no line feed and no
  white space at either end, no part of it is taken for a comment, and it is not a
  pair of double quotes.
\<close>

definition plain_value :: "string \<Rightarrow> bool" where
  "plain_value v =
     (CHR 0x0A \<notin> set v \<and> lstrip v = v \<and> rstrip v = v \<and> cut_comment v = v
      \<and> v \<noteq> [CHR 0x22, CHR 0x22])"

text \<open>
  A name of an option that an option line gives back as it was written: it is not
  empty, has no white space, \<^verbatim>\<open>:\<close> or \<^verbatim>\<open>=\<close>, does not start a comment or a section
  header, is in lower case and is not \<^verbatim>\<open>rem\<close>.
\<close>

definition plain_key :: "string \<Rightarrow> bool" where
  "plain_key k =
     (k \<noteq> [] \<and> list_all (\<lambda>c. \<not> isspace c \<and> c \<noteq> CHR '':'' \<and> c \<noteq> CHR ''='') k
      \<and> hd k \<noteq> CHR ''#'' \<and> hd k \<noteq> CHR '';'' \<and> hd k \<noteq> CHR ''['' \<and> lower k = k
      \<and> k \<noteq> ''rem'')"

subsection \<open>Storing a submission\<close>

text \<open>\<^verbatim>\<open>submission_backup(back_dir, archive_filename, sbcfg)\<close>, lines 85 to 118.\<close>

definition submission_backup :: "path \<Rightarrow> path \<Rightarrow> config_parser \<Rightarrow> world \<Rightarrow> (error + unit) \<times> world" where
  "submission_backup back_dir archive_filename sbcfg w =
     (let back_arc = dir_submission_expanded_archive back_dir;
          back_cfg = submission_config_file back_dir;
          back_zip = submission_archive_file back_dir
      in case (if \<not> path_exists w back_dir then makedirs back_dir w else (Inr (), w)) of
           (Inl e, w1) \<Rightarrow> (Inl e, w1)
         | (Inr u1, w1) \<Rightarrow>
             (case copyfile archive_filename back_zip w1 of
                (Inl e, w2) \<Rightarrow> (Inl e, w2)
              | (Inr u2, w2) \<Rightarrow>
                  (case write_file back_cfg (Raw (config_write sbcfg)) w2 of
                     (Inl e, w3) \<Rightarrow> (Inl e, w3)
                   | (Inr u3, w3) \<Rightarrow> unzip_safely archive_filename back_arc w3)))"

text \<open>
  The program \<^verbatim>\<open>git\<close> run in a working directory: outside a work tree it exits with
  status 128 and changes nothing; inside one, \<^verbatim>\<open>git commit\<close> records a commit with
  the last argument as message and every command exits with status 0.
\<close>

definition git_program :: "string list \<Rightarrow> path \<Rightarrow> world \<Rightarrow> int \<times> world" where
  "git_program argv cwd w =
     (if list_ex (\<lambda>r. prefix r cwd) (repos w)
      then (if take 2 argv = [''git'', ''commit'']
            then (0, w\<lparr>commits := commits w @ [(cwd, last argv)]\<rparr>)
            else (0, w))
      else (128, w))"

text \<open>
  \<^verbatim>\<open>subprocess.Popen(argv, cwd=cwd).wait()\<close>: \<^verbatim>\<open>OSError\<close> when the working directory
  does not exist, otherwise the exit status of the program.
\<close>

definition popen_wait ::
    "(string list \<Rightarrow> path \<Rightarrow> world \<Rightarrow> int \<times> world) \<Rightarrow> string list \<Rightarrow> path \<Rightarrow> world \<Rightarrow> (error + int) \<times> world" where
  "popen_wait program argv cwd w =
     (if fs w cwd = Some Dir
      then (case program argv cwd (w\<lparr>proc_log := proc_log w @ [(argv, cwd)]\<rparr>) of
              (status, w') \<Rightarrow> (Inr status, w'))
      else (Inl OSError, w))"

text \<open>
  \<^verbatim>\<open>submission_git_commit(dest, user, assignment)\<close>, lines 122 to 129. The value of
  each \<^verbatim>\<open>wait()\<close> is dropped.
\<close>

definition submission_git_commit :: "path \<Rightarrow> string \<Rightarrow> string \<Rightarrow> world \<Rightarrow> (error + unit) \<times> world" where
  "submission_git_commit dest user assignment w =
     (case popen_wait git_program [''git'', ''add'', ''--force'', ''.''] dest w of
        (Inl e, w1) \<Rightarrow> (Inl e, w1)
      | (Inr status1, w1) \<Rightarrow>
          (case popen_wait git_program
                  [''git'', ''commit'', ''--allow-empty'', ''.'',
                   ''-m '' @ [CHR 0x22] @ ''Updated '' @ user @ [CHR 0x27] @ '' submission for ''
                     @ assignment @ [CHR 0x22]] dest w1 of
             (Inl e, w2) \<Rightarrow> (Inl e, w2)
           | (Inr status2, w2) \<Rightarrow> (Inr (), w2)))"

text \<open>
  The context manager \<^verbatim>\<open>assignments().lock(vmpaths, assignment)\<close>: the lock is held
  while the body runs and released when the body returns or raises.
\<close>

definition with_lock :: "string \<Rightarrow> (world \<Rightarrow> 'a \<times> world) \<Rightarrow> world \<Rightarrow> 'a \<times> world" where
  "with_lock name body w =
     (case body (w\<lparr>locks := name # locks w\<rparr>) of
        (r, w') \<Rightarrow> (r, w'\<lparr>locks := remove1 name (locks w')\<rparr>))"

text \<open>\<^verbatim>\<open>save_submission_in_storer\<close>, lines 134 to 171.\<close>

definition save_submission_in_storer ::
    "deps \<Rightarrow> path \<Rightarrow> string \<Rightarrow> string \<Rightarrow> string \<Rightarrow> string \<Rightarrow> world \<Rightarrow> (error + unit) \<times> world" where
  "save_submission_in_storer d archive_filename user assignment course_id upload_time w =
     (let cfg = course_config d course_id;
          root = root_path cfg;
          sbroot = dir_submission_root d root assignment user;
          sbcfg = submission_config user assignment course_id upload_time
                    (dir_submission_results d sbroot) (storer_username cfg) (storer_hostname cfg);
          name_prefix = submission_backup_prefix course_id assignment user upload_time
      in case mkdtemp name_prefix (dir_backup d root) w of
           (Inl e, w1) \<Rightarrow> (Inl e, w1)
         | (Inr back_dir, w1) \<Rightarrow>
             (case submission_backup back_dir archive_filename sbcfg w1 of
                (Inl e, w2) \<Rightarrow> (Inl e, w2)
              | (Inr u, w2) \<Rightarrow>
                  (let git_dest = dir_submission_root d root assignment user
                   in with_lock assignment
                        (\<lambda>w3. case (if path_exists w3 git_dest then rmtree git_dest w3
                                     else (Inr (), w3)) of
                                 (Inl e, w4) \<Rightarrow> (Inl e, w4)
                               | (Inr u', w4) \<Rightarrow>
                                   (case submission_backup git_dest archive_filename sbcfg w4 of
                                      (Inl e, w5) \<Rightarrow> (Inl e, w5)
                                    | (Inr u'', w5) \<Rightarrow>
                                        submission_git_commit
                                          (dir_submission_expanded_archive git_dest)
                                          user assignment w5))
                        w2)))"

subsection \<open>The rate limiter\<close>

text \<open>
  \<^verbatim>\<open>submitted_too_soon(assignment, user, vmcfg)\<close>, lines 260 to 280. The time of the
  check is the clock of the world at the call (\<^verbatim>\<open>datetime.datetime.now()\<close>).
\<close>

definition submitted_too_soon :: "deps \<Rightarrow> string \<Rightarrow> string \<Rightarrow> vmcfg \<Rightarrow> world \<Rightarrow> bool" where
  "submitted_too_soon d assignment user cfg w =
     (if \<not> submission_exists d w cfg assignment user then False
      else case get_upload_time d w cfg assignment user of
             None \<Rightarrow> False
           | Some upload_time \<Rightarrow>
               (let remaining = upload_time;
                    remaining = remaining + asg_timedelta cfg assignment;
                    remaining = remaining - clock w
                in remaining > 0))"

subsection \<open>The admission window\<close>

text \<open>
  The message and the test of lines 320 to 324 of \<^verbatim>\<open>submit\<close>: the upload is refused
  when its time is before the start or after the end of the active interval.
\<close>

definition upload_inactive_msg :: "deps \<Rightarrow> struct_time \<Rightarrow> struct_time \<Rightarrow> string" where
  "upload_inactive_msg d active_start active_stop =
     ''You can only submit homework between '' @ strftime d active_start @ '' and ''
       @ strftime d active_stop @ ''.''"

definition upload_active_check ::
    "deps \<Rightarrow> struct_time \<Rightarrow> struct_time \<times> struct_time \<Rightarrow> error + unit" where
  "upload_active_check d upload_time interval =
     (case interval of (active_start, active_stop) \<Rightarrow>
        if upload_time < active_start \<or> upload_time > active_stop
        then Inl (SubmitedTooSoonError (upload_inactive_msg d active_start active_stop))
        else Inr ())"

subsection \<open>Building and sending the bundle\<close>

text \<open>
  Modelled from the spec: \<^verbatim>\<open>ziputil.create_zip(handler, file_list)\<close>, whose source is
  not available. The specification has the bundle assembled from a manifest of pairs
  of a destination name and a source path: every source is read, in order, and stored
  under its destination name; a source that is not a readable file is an
  \<^verbatim>\<open>IOError\<close>, and then nothing is written through the handle.
\<close>

fun read_sources :: "world \<Rightarrow> (string \<times> path) list \<Rightarrow> error + (string \<times> content) list" where
  "read_sources w [] = Inr []"
| "read_sources w ((dst, src) # file_list) =
     (case fs w src of
        Some (File c) \<Rightarrow>
          (case read_sources w file_list of
             Inl e \<Rightarrow> Inl e
           | Inr es \<Rightarrow> Inr ((dst, c) # es))
      | _ \<Rightarrow> Inl IOError)"

definition create_zip :: "path \<Rightarrow> (string \<times> path) list \<Rightarrow> world \<Rightarrow> (error + unit) \<times> world" where
  "create_zip handler file_list w =
     (case read_sources w file_list of
        Inl e \<Rightarrow> (Inl e, w)
      | Inr es \<Rightarrow> (Inr (), w\<lparr>fs := (fs w)(handler \<mapsto> File (Zip es))\<rparr>))"

text \<open>
  \<^verbatim>\<open>create_testing_bundle(user, assignment, course_id)\<close>, lines 175 to 224. The
  \<^verbatim>\<open>except\<close> clause logs the failure and raises it again; it has no other statement.
\<close>

definition create_testing_bundle ::
    "deps \<Rightarrow> string \<Rightarrow> string \<Rightarrow> string \<Rightarrow> world \<Rightarrow> (error + path) \<times> world" where
  "create_testing_bundle d user assignment course_id w =
     (let cfg = course_config d course_id;
          root = root_path cfg;
          sbroot = dir_submission_root d root assignment user;
          machine = asg_machine cfg assignment;
          rel_file_list = [];
          rel_file_list = rel_file_list @
            [(''build.sh'', build_script cfg machine),
             (''run.sh'', run_script cfg machine)];
          rel_file_list = rel_file_list @
            [(''archive.zip'', submission_archive_file sbroot),
             (''tests.zip'', asg_tests_path cfg assignment),
             (''submission-config'', submission_config_file sbroot),
             (''course-config'', config_file d root)];
          file_list = map (\<lambda>(dst, src). (dst, abspath d root src)) rel_file_list
      in with_lock assignment
           (\<lambda>w1. case mkstemp ''.zip'' (course_id @ ''_'' @ assignment @ ''_'' @ user @ ''_'')
                        (dir_unchecked d root) w1 of
                    (Inl e, w2) \<Rightarrow> (Inl e, w2)
                  | (Inr bundle_path, w2) \<Rightarrow>
                      (case create_zip bundle_path file_list w2 of
                         (Inl e, w3) \<Rightarrow> (Inl e, w3)
                       | (Inr u, w3) \<Rightarrow> (Inr bundle_path, w3)))
           w)"

text \<open>
  \<^verbatim>\<open>ssh_bundle(bundle_path, vmcfg, assignment)\<close>, lines 227 to 256: connect, read the
  private key, authenticate, and put the bundle into the tester's queue directory
  under its base name.
\<close>

definition ssh_bundle :: "path \<Rightarrow> vmcfg \<Rightarrow> string \<Rightarrow> world \<Rightarrow> (error + unit) \<times> world" where
  "ssh_bundle bundle_path cfg assignment w =
     (let machine = asg_machine cfg assignment;
          tester' = tester cfg machine;
          tester_queuepath = queue_path cfg tester'
      in if net w = Connect_refused then (Inl SocketError, w)
         else if is_file w (storer_sshid cfg)
         then (if net w = Auth_rejected then (Inl SSHException, w)
               else case fs w bundle_path of
                      Some (File c) \<Rightarrow>
                        if net w = Put_failed then (Inl IOError, w)
                        else (Inr (), w\<lparr>remote := (remote w)(tester_queuepath @ [last bundle_path] \<mapsto> c)\<rparr>)
                    | _ \<Rightarrow> (Inl IOError, w))
         else (Inl IOError, w))"

text \<open>\<^verbatim>\<open>queue_for_testing(assignment, user, course_id)\<close>, lines 284 to 289.\<close>

definition queue_for_testing :: "deps \<Rightarrow> string \<Rightarrow> string \<Rightarrow> string \<Rightarrow> world \<Rightarrow> (error + unit) \<times> world" where
  "queue_for_testing d assignment user course_id w =
     (let cfg = course_config d course_id
      in case create_testing_bundle d user assignment course_id w of
           (Inl e, w1) \<Rightarrow> (Inl e, w1)
         | (Inr bundle_path, w1) \<Rightarrow> ssh_bundle bundle_path cfg assignment w1)"

subsection \<open>The intake\<close>

text \<open>The message of lines 329 to 331: the literal spans two lines of the source.\<close>

definition too_fast_msg :: "deps \<Rightarrow> timedelta \<Rightarrow> string" where
  "too_fast_msg d delta =
     ''You are submitting too fast.'' @ [CHR 0x0A] @ replicate 35 CHR '' ''
       @ ''Please allow '' @ str_timedelta d delta @ '' between submissions''"

text \<open>
  \<^verbatim>\<open>submit(archive_filename, assignment, user, course_id, skip_time_check,
  forced_upload_time)\<close>, lines 292 to 335.
\<close>

definition submit ::
    "deps \<Rightarrow> path \<Rightarrow> string \<Rightarrow> string \<Rightarrow> string \<Rightarrow> bool \<Rightarrow> string option \<Rightarrow> world
       \<Rightarrow> (error + unit) \<times> world" where
  "submit d archive_filename assignment user course_id skip_time_check forced_upload_time w =
     (let cfg = course_config d course_id;
          skip_time_check' = (case forced_upload_time of Some t \<Rightarrow> True | None \<Rightarrow> skip_time_check);
          upload_time_str = (case forced_upload_time of
                               Some t \<Rightarrow> t
                             | None \<Rightarrow> strftime d (localtime d (clock w)))
      in case strptime d upload_time_str of
           None \<Rightarrow> (Inl ValueError, w)
         | Some upload_time \<Rightarrow>
             (case upload_active_check d upload_time (upload_active_interval cfg) of
                Inl e \<Rightarrow> (Inl e, w)
              | Inr u \<Rightarrow>
                  if \<not> skip_time_check' \<and> submitted_too_soon d assignment user cfg w
                  then (Inl (SubmitedTooSoonError (too_fast_msg d (asg_timedelta cfg assignment))), w)
                  else (case save_submission_in_storer d archive_filename user assignment
                               course_id upload_time_str w of
                          (Inl e, w1) \<Rightarrow> (Inl e, w1)
                        | (Inr u', w1) \<Rightarrow> queue_for_testing d assignment user course_id w1)))"

text \<open>
  What is decoded from a bundle after its extraction: the option of the section
  \<^verbatim>\<open>Assignment\<close> in its entry \<^verbatim>\<open>submission-config\<close>.
\<close>

definition bundle_descriptor_option :: "world \<Rightarrow> path \<Rightarrow> string \<Rightarrow> string option" where
  "bundle_descriptor_option w bundle_path k =
     (case fs w bundle_path of
        Some (File (Zip es)) \<Rightarrow>
          (case map_of es ''submission-config'' of
             Some c \<Rightarrow> decode_option c ''Assignment'' k
           | None \<Rightarrow> None)
      | _ \<Rightarrow> None)"

subsection \<open>The queue watcher\<close>

text \<open>A path as the string that is passed to a program.\<close>

definition path_str :: "path \<Rightarrow> string" where
  "path_str p = concat (map (\<lambda>s. ''/'' @ s) p)"

text \<open>
  The program \<^verbatim>\<open>unzip -d location archive\<close>: it expands a zip archive below the
  location and exits with status 0, with status 1 when an entry cannot be written and
  with status 9 when the archive is not a zip file.
\<close>

definition unzip_program :: "path \<Rightarrow> path \<Rightarrow> string list \<Rightarrow> path \<Rightarrow> world \<Rightarrow> int \<times> world" where
  "unzip_program location archive argv cwd w =
     (case fs w archive of
        Some (File (Zip entries)) \<Rightarrow>
          (case extract_entries location entries w of
             (Inl e, w') \<Rightarrow> (1, w')
           | (Inr u, w') \<Rightarrow> (0, w'))
      | _ \<Rightarrow> (9, w))"

text \<open>
  \<^verbatim>\<open>subprocess.check_call(argv)\<close> waits for the program and raises
  \<^verbatim>\<open>CalledProcessError\<close> with the exit status when that is not 0.
\<close>

definition check_call ::
    "(string list \<Rightarrow> path \<Rightarrow> world \<Rightarrow> int \<times> world) \<Rightarrow> string list \<Rightarrow> path \<Rightarrow> world \<Rightarrow> (error + unit) \<times> world" where
  "check_call program argv cwd w =
     (case popen_wait program argv cwd w of
        (Inl e, w') \<Rightarrow> (Inl e, w')
      | (Inr status, w') \<Rightarrow> if status = 0 then (Inr (), w') else (Inl (CalledProcessError status), w'))"

text \<open>
  \<^verbatim>\<open>_process_job(path, name)\<close>, lines 33 to 42 of \<^verbatim>\<open>queue_manager.py\<close>. The first
  two arguments are \<^verbatim>\<open>vmcheckerpaths.dir_tester_unzip_tmp()\<close> and the working
  directory of the watcher.
\<close>

definition process_job :: "path \<Rightarrow> path \<Rightarrow> path \<Rightarrow> string \<Rightarrow> world \<Rightarrow> (error + unit) \<times> world" where
  "process_job dir_tester_unzip_tmp cwd path' name w =
     (case mkdtemp ''vmchecker-'' dir_tester_unzip_tmp w of
        (Inl e, w1) \<Rightarrow> (Inl e, w1)
      | (Inr location, w1) \<Rightarrow>
          (let archive = path' @ [name]
           in case check_call (unzip_program location archive)
                     [''unzip'', ''-d'', path_str location, path_str archive] cwd w1 of
                (Inl e, w2) \<Rightarrow> (Inl e, w2)
              | (Inr u, w2) \<Rightarrow> rmtree location w2))"

text \<open>
  \<^verbatim>\<open>_QueueManager.process_IN_CLOSE_WRITE(event)\<close>, lines 28 to 30, for an event with
  the fields \<^verbatim>\<open>path\<close> and \<^verbatim>\<open>name\<close>.
\<close>

definition process_IN_CLOSE_WRITE :: "path \<Rightarrow> path \<Rightarrow> path \<times> string \<Rightarrow> world \<Rightarrow> (error + unit) \<times> world" where
  "process_IN_CLOSE_WRITE dir_tester_unzip_tmp cwd event w =
     process_job dir_tester_unzip_tmp cwd (fst event) (snd event) w"

subsection \<open>An example installation\<close>

text \<open>
  A course \<^verbatim>\<open>so\<close> installed under \<^verbatim>\<open>/srv/so\<close>, with one hour between two
  submissions and uploads open during the year 2010, used to evaluate the functions
  on concrete inputs. Dates are read and printed through a table.
\<close>

definition demo_dates :: "(string \<times> struct_time) list" where
  "demo_dates =
     [(''2009.12.31 23:59:59'', (2009, 12, 31, 23, 59, 59, 3, 365, -1)),
      (''2010.01.01 00:00:00'', (2010, 1, 1, 0, 0, 0, 4, 1, -1)),
      (''2010.03.05 01:08:54'', (2010, 3, 5, 1, 8, 54, 4, 64, -1)),
      (''2010.12.31 23:59:59'', (2010, 12, 31, 23, 59, 59, 4, 365, -1)),
      (''2011.01.01 00:00:00'', (2011, 1, 1, 0, 0, 0, 5, 1, -1))]"

definition demo_strftime :: "struct_time \<Rightarrow> string" where
  "demo_strftime t = (case find (\<lambda>e. snd e = t) demo_dates of Some e \<Rightarrow> fst e | None \<Rightarrow> ''?'')"

definition demo_cfg :: vmcfg where
  "demo_cfg =
     \<lparr>root_path = [''srv'', ''so''],
      storer_username = ''storer'',
      storer_hostname = ''storer.example.org'',
      storer_sshid = [''srv'', ''so'', ''id_rsa''],
      upload_active_interval =
        ((2010, 1, 1, 0, 0, 0, 4, 1, -1), (2010, 12, 31, 23, 59, 59, 4, 365, -1)),
      asg_machine = (\<lambda>a. ''vm1''),
      asg_timedelta = (\<lambda>a. 3600000000),
      asg_tests_path = (\<lambda>a. [''tests'', a @ ''.zip'']),
      build_script = (\<lambda>m. [''scripts'', ''build.sh'']),
      run_script = (\<lambda>m. [''scripts'', ''run.sh'']),
      tester = (\<lambda>m. ''tester1''),
      login_username = (\<lambda>t. ''vmchecker''),
      hostname = (\<lambda>t. ''tester1.example.org''),
      queue_path = (\<lambda>t. [''home'', ''vmchecker'', ''queue''])\<rparr>"

text \<open>
  The upload time of the canonical submission is decoded from its descriptor; the
  time \<^verbatim>\<open>2010.03.05 01:08:54\<close> is the instant 0 of the clock.
\<close>

definition demo_get_upload_time :: "world \<Rightarrow> path \<Rightarrow> datetime option" where
  "demo_get_upload_time w sbroot =
     (case fs w (submission_config_file sbroot) of
        Some (File c) \<Rightarrow>
          (case decode_option c ''Assignment'' ''UploadTime'' of
             Some s \<Rightarrow> if s = ''2010.03.05 01:08:54'' then Some 0 else None
           | None \<Rightarrow> None)
      | _ \<Rightarrow> None)"

definition demo_deps :: deps where
  "demo_deps =
     \<lparr>course_config = (\<lambda>c. demo_cfg),
      dir_submission_root = (\<lambda>root a u. root @ [''repo'', a, u]),
      dir_submission_results = (\<lambda>sbroot. path_str (sbroot @ [''results''])),
      dir_backup = (\<lambda>root. root @ [''back'']),
      dir_unchecked = (\<lambda>root. root @ [''unchecked'']),
      config_file = (\<lambda>root. root @ [''config'']),
      abspath = (\<lambda>root p. if prefix root p then p else root @ p),
      submission_exists = (\<lambda>w cfg a u. path_exists w (root_path cfg @ [''repo'', a, u])),
      get_upload_time = (\<lambda>w cfg a u. demo_get_upload_time w (root_path cfg @ [''repo'', a, u])),
      strptime = map_of demo_dates,
      strftime = demo_strftime,
      localtime = (\<lambda>c. (2010, 3, 5, 1, 8, 54, 4, 64, -1)),
      str_timedelta = (\<lambda>t. ''1:00:00'')\<rparr>"

definition demo_archive :: content where
  "demo_archive = Zip [(''main.c'', Raw ''int main() { return 0; }''), (''Makefile'', Raw ''all:'')]"

definition demo_unsafe_archive :: content where
  "demo_unsafe_archive = Zip [(''main.c'', Raw ''int main() { return 0; }''), (''../../config'', Raw ''x'')]"

definition demo_fs :: "path \<rightharpoonup> node" where
  "demo_fs = map_of
     [([], Dir),
      ([''srv''], Dir),
      ([''srv'', ''so''], Dir),
      ([''srv'', ''so'', ''back''], Dir),
      ([''srv'', ''so'', ''unchecked''], Dir),
      ([''srv'', ''so'', ''repo''], Dir),
      ([''srv'', ''so'', ''scripts''], Dir),
      ([''srv'', ''so'', ''tests''], Dir),
      ([''srv'', ''so'', ''config''], File (Raw ''[DEFAULT]'')),
      ([''srv'', ''so'', ''id_rsa''], File (Raw ''key'')),
      ([''srv'', ''so'', ''scripts'', ''build.sh''], File (Raw ''make'')),
      ([''srv'', ''so'', ''scripts'', ''run.sh''], File (Raw ''./run'')),
      ([''srv'', ''so'', ''tests'', ''lab1.zip''], File (Zip [(''t1'', Raw ''1'')])),
      ([''tmp''], Dir),
      ([''tmp'', ''hw1.zip''], File demo_archive),
      ([''tmp'', ''bad.zip''], File demo_unsafe_archive),
      ([''tmp'', ''broken.zip''], File (Raw ''PK''))]"

definition demo_world :: world where
  "demo_world =
     \<lparr>fs = demo_fs,
      temp_names = [''juSZr9'', ''Qx81aB'', ''m0Tz4k''],
      clock = 0,
      proc_log = [],
      repos = [[''srv'', ''so'', ''repo'']],
      commits = [],
      locks = [],
      net = Net_up,
      remote = Map.empty\<rparr>"

text \<open>The example world after a first submission of \<^verbatim>\<open>alice\<close> for \<^verbatim>\<open>lab1\<close> at instant 0.\<close>

definition demo_world_submitted :: world where
  "demo_world_submitted =
     demo_world\<lparr>fs := demo_fs
       ([''srv'', ''so'', ''repo'', ''lab1''] \<mapsto> Dir,
        [''srv'', ''so'', ''repo'', ''lab1'', ''alice''] \<mapsto> Dir,
        [''srv'', ''so'', ''repo'', ''lab1'', ''alice'', ''archive.zip''] \<mapsto> File demo_archive,
        [''srv'', ''so'', ''repo'', ''lab1'', ''alice'', ''submission-config''] \<mapsto>
          File (Raw (config_write
                       (submission_config ''alice'' ''lab1'' ''so'' ''2010.03.05 01:08:54''
                          ''/srv/so/repo/lab1/alice/results'' ''storer'' ''storer.example.org''))))\<rparr>"

text \<open>The same world with a descriptor that carries no upload time.\<close>

definition demo_world_unreadable :: world where
  "demo_world_unreadable =
     demo_world\<lparr>fs := demo_fs
       ([''srv'', ''so'', ''repo'', ''lab1''] \<mapsto> Dir,
        [''srv'', ''so'', ''repo'', ''lab1'', ''alice''] \<mapsto> Dir,
        [''srv'', ''so'', ''repo'', ''lab1'', ''alice'', ''submission-config''] \<mapsto>
          File (Raw ''''))\<rparr>"

text \<open>The example world when the tests of \<^verbatim>\<open>lab1\<close> have not been installed.\<close>

definition demo_world_no_tests :: world where
  "demo_world_no_tests =
     demo_world_submitted\<lparr>fs := (fs demo_world_submitted)
       ([''srv'', ''so'', ''tests'', ''lab1.zip''] := None)\<rparr>"

text \<open>The example world when the repository directory is not a git work tree.\<close>

definition demo_world_no_repo :: world where
  "demo_world_no_repo = demo_world\<lparr>repos := []\<rparr>"

text \<open>
  A tester machine with two files in its queue: a bundle, and a file that is not a zip
  archive.
\<close>

definition demo_tester_world :: world where
  "demo_tester_world =
     \<lparr>fs = map_of
        [([], Dir),
         ([''home''], Dir),
         ([''home'', ''vmchecker''], Dir),
         ([''home'', ''vmchecker'', ''queue''], Dir),
         ([''home'', ''vmchecker'', ''unzip-tmp''], Dir),
         ([''home'', ''vmchecker'', ''queue'', ''so_lab1_alice_Qx81aB.zip''],
            File (Zip [(''build.sh'', Raw ''make''), (''run.sh'', Raw ''./run'')])),
         ([''home'', ''vmchecker'', ''queue'', ''truncated.zip''], File (Raw ''PK''))],
      temp_names = [''k3Yw0p'', ''Zr77uD''],
      clock = 0,
      proc_log = [],
      repos = [],
      commits = [],
      locks = [],
      net = Net_up,
      remote = Map.empty\<rparr>"

text \<open>
  The example world when the place of the descriptor of the canonical backup of
  \<^verbatim>\<open>alice\<close> for \<^verbatim>\<open>lab1\<close> is taken by a directory, so that the descriptor cannot be
  written.
\<close>

definition demo_world_descriptor_dir :: world where
  "demo_world_descriptor_dir =
     demo_world\<lparr>fs := demo_fs
       ([''srv'', ''so'', ''repo'', ''lab1''] \<mapsto> Dir,
        [''srv'', ''so'', ''repo'', ''lab1'', ''alice''] \<mapsto> Dir,
        [''srv'', ''so'', ''repo'', ''lab1'', ''alice'', ''submission-config''] \<mapsto> Dir)\<rparr>"

section \<open>Properties\<close>

subsection \<open>The rate limiter\<close>

text \<open>
  C6. The rate limiter answers false when no canonical submission exists for the
  assignment and the user. When one exists and its upload time is read as
  \<open>last_upload_time\<close>, it answers true exactly when
  \<open>last_upload_time + min_interval - now > 0\<close>; so a check made exactly \<open>min_interval\<close>
  after the last upload answers false and the submission is admitted. (The case of an
  upload time that cannot be read is C10.)
\<close>

theorem submitted_too_soon_spec:
  "(\<not> submission_exists d w cfg assignment user \<longrightarrow>
      submitted_too_soon d assignment user cfg w = False)
   \<and> (submission_exists d w cfg assignment user
        \<and> get_upload_time d w cfg assignment user = Some last_upload_time \<longrightarrow>
      submitted_too_soon d assignment user cfg w
        = (last_upload_time + asg_timedelta cfg assignment - clock w > 0))
   \<and> (submission_exists d w cfg assignment user
        \<and> get_upload_time d w cfg assignment user = Some last_upload_time
        \<and> clock w = last_upload_time + asg_timedelta cfg assignment \<longrightarrow>
      submitted_too_soon d assignment user cfg w = False)"
  by (simp add: submitted_too_soon_def Let_def)

theorem submitted_too_soon_spec_witness:
  "submission_exists demo_deps demo_world_submitted demo_cfg ''lab1'' ''alice''
   \<and> get_upload_time demo_deps demo_world_submitted demo_cfg ''lab1'' ''alice'' = Some 0
   \<and> \<not> submission_exists demo_deps demo_world demo_cfg ''lab1'' ''alice''
   \<and> submitted_too_soon demo_deps ''lab1'' ''alice'' demo_cfg demo_world = False
   \<and> submitted_too_soon demo_deps ''lab1'' ''alice'' demo_cfg demo_world_submitted = True
   \<and> submitted_too_soon demo_deps ''lab1'' ''alice'' demo_cfg
        (demo_world_submitted\<lparr>clock := 3599999999\<rparr>) = True
   \<and> submitted_too_soon demo_deps ''lab1'' ''alice'' demo_cfg
        (demo_world_submitted\<lparr>clock := 3600000000\<rparr>) = False"
proof -
  have e0: "\<not> submission_exists demo_deps demo_world demo_cfg ''lab1'' ''alice''"
    by code_simp
  have e1: "submission_exists demo_deps demo_world_submitted demo_cfg ''lab1'' ''alice''"
    "submission_exists demo_deps (demo_world_submitted\<lparr>clock := 3599999999\<rparr>) demo_cfg
       ''lab1'' ''alice''"
    "submission_exists demo_deps (demo_world_submitted\<lparr>clock := 3600000000\<rparr>) demo_cfg
       ''lab1'' ''alice''"
    by code_simp+
  have e2: "get_upload_time demo_deps demo_world_submitted demo_cfg ''lab1'' ''alice'' = Some 0"
    "get_upload_time demo_deps (demo_world_submitted\<lparr>clock := 3599999999\<rparr>) demo_cfg
       ''lab1'' ''alice'' = Some 0"
    "get_upload_time demo_deps (demo_world_submitted\<lparr>clock := 3600000000\<rparr>) demo_cfg
       ''lab1'' ''alice'' = Some 0"
    by code_simp+
  have e3: "asg_timedelta demo_cfg ''lab1'' = 3600000000" "clock demo_world_submitted = 0"
    by (simp_all add: demo_cfg_def demo_world_submitted_def demo_world_def)
  show ?thesis
    using submitted_too_soon_spec [of demo_deps demo_world demo_cfg "''lab1''" "''alice''" 0]
      submitted_too_soon_spec [of demo_deps demo_world_submitted demo_cfg "''lab1''" "''alice''" 0]
      submitted_too_soon_spec [of demo_deps "demo_world_submitted\<lparr>clock := 3599999999\<rparr>" demo_cfg
        "''lab1''" "''alice''" 0]
      submitted_too_soon_spec [of demo_deps "demo_world_submitted\<lparr>clock := 3600000000\<rparr>" demo_cfg
        "''lab1''" "''alice''" 0]
      e0 e1 e2 e3
    by simp
qed

text \<open>
  C10. When a canonical submission exists for the assignment and the user but its upload
  time cannot be read (\<^verbatim>\<open>get_upload_time\<close> returns \<^verbatim>\<open>None\<close>), the rate limiter
  answers false, whatever the clock and the minimum interval are.
\<close>

theorem submitted_too_soon_unreadable_time:
  assumes "submission_exists d w cfg assignment user"
    and "get_upload_time d w cfg assignment user = None"
  shows "submitted_too_soon d assignment user cfg w = False"
  using assms by (simp add: submitted_too_soon_def)

theorem submitted_too_soon_unreadable_time_witness:
  "submission_exists demo_deps demo_world_unreadable demo_cfg ''lab1'' ''alice''
   \<and> get_upload_time demo_deps demo_world_unreadable demo_cfg ''lab1'' ''alice'' = None
   \<and> submitted_too_soon demo_deps ''lab1'' ''alice'' demo_cfg demo_world_unreadable = False"
proof -
  have e1: "submission_exists demo_deps demo_world_unreadable demo_cfg ''lab1'' ''alice''"
    by code_simp
  have e2: "get_upload_time demo_deps demo_world_unreadable demo_cfg ''lab1'' ''alice'' = None"
    by code_simp
  from submitted_too_soon_unreadable_time [OF e1 e2] e1 e2 show ?thesis
    by simp
qed

subsection \<open>The admission window and the kind of its rejection\<close>

lemma upload_active_check_iff:
  "(upload_active_check d upload_time (active_start, active_stop) = Inr ())
     = (active_start \<le> upload_time \<and> upload_time \<le> active_stop)"
  by (auto simp: upload_active_check_def not_less)

lemma upload_active_check_outside:
  "upload_time < active_start \<or> active_stop < upload_time \<Longrightarrow>
     upload_active_check d upload_time (active_start, active_stop)
       = Inl (SubmitedTooSoonError (upload_inactive_msg d active_start active_stop))"
  by (simp add: upload_active_check_def)

text \<open>
  C7. With \<open>upload_time\<close> the parsed time of the upload and
  \<open>(active_start, active_stop)\<close> the configured interval, the window check passes
  exactly when \<open>active_start \<le> upload_time \<le> active_stop\<close>, both bounds included.
  Outside the interval \<^verbatim>\<open>submit\<close> raises the rejection and changes nothing; inside
  it, the bounds included, \<^verbatim>\<open>submit\<close> goes on to the rate limiter and the store.
\<close>

theorem admission_window_inclusive:
  assumes "strptime d (case forced_upload_time of Some t \<Rightarrow> t
                        | None \<Rightarrow> strftime d (localtime d (clock w))) = Some upload_time"
    and "upload_active_interval (course_config d course_id) = (active_start, active_stop)"
  shows "(upload_active_check d upload_time (active_start, active_stop) = Inr ())
           = (active_start \<le> upload_time \<and> upload_time \<le> active_stop)
       \<and> (upload_time < active_start \<or> active_stop < upload_time \<longrightarrow>
            submit d archive_filename assignment user course_id skip_time_check forced_upload_time w
              = (Inl (SubmitedTooSoonError (upload_inactive_msg d active_start active_stop)), w))
       \<and> (active_start \<le> upload_time \<and> upload_time \<le> active_stop \<longrightarrow>
            submit d archive_filename assignment user course_id skip_time_check forced_upload_time w
              = (if \<not> (case forced_upload_time of Some t \<Rightarrow> True | None \<Rightarrow> skip_time_check)
                    \<and> submitted_too_soon d assignment user (course_config d course_id) w
                 then (Inl (SubmitedTooSoonError
                              (too_fast_msg d (asg_timedelta (course_config d course_id) assignment))), w)
                 else (case save_submission_in_storer d archive_filename user assignment course_id
                              (case forced_upload_time of Some t \<Rightarrow> t
                               | None \<Rightarrow> strftime d (localtime d (clock w))) w of
                         (Inl e, w1) \<Rightarrow> (Inl e, w1)
                       | (Inr u, w1) \<Rightarrow> queue_for_testing d assignment user course_id w1)))"
  using assms upload_active_check_iff [of d upload_time active_start active_stop]
    upload_active_check_outside [of upload_time active_start active_stop d]
  by (auto simp: submit_def Let_def split: sum.splits option.splits)

theorem admission_window_inclusive_witness:
  "strptime demo_deps ''2010.01.01 00:00:00'' = Some (2010, 1, 1, 0, 0, 0, 4, 1, -1)
   \<and> strptime demo_deps ''2010.12.31 23:59:59'' = Some (2010, 12, 31, 23, 59, 59, 4, 365, -1)
   \<and> strptime demo_deps ''2011.01.01 00:00:00'' = Some (2011, 1, 1, 0, 0, 0, 5, 1, -1)
   \<and> strptime demo_deps ''2009.12.31 23:59:59'' = Some (2009, 12, 31, 23, 59, 59, 3, 365, -1)
   \<and> upload_active_interval (course_config demo_deps ''so'')
        = ((2010, 1, 1, 0, 0, 0, 4, 1, -1), (2010, 12, 31, 23, 59, 59, 4, 365, -1))
   \<and> upload_active_check demo_deps (2010, 1, 1, 0, 0, 0, 4, 1, -1)
        ((2010, 1, 1, 0, 0, 0, 4, 1, -1), (2010, 12, 31, 23, 59, 59, 4, 365, -1)) = Inr ()
   \<and> upload_active_check demo_deps (2010, 12, 31, 23, 59, 59, 4, 365, -1)
        ((2010, 1, 1, 0, 0, 0, 4, 1, -1), (2010, 12, 31, 23, 59, 59, 4, 365, -1)) = Inr ()
   \<and> submit demo_deps [''tmp'', ''hw1.zip''] ''lab1'' ''alice'' ''so'' False
        (Some ''2011.01.01 00:00:00'') demo_world
        = (Inl (SubmitedTooSoonError (upload_inactive_msg demo_deps
                  (2010, 1, 1, 0, 0, 0, 4, 1, -1) (2010, 12, 31, 23, 59, 59, 4, 365, -1))),
           demo_world)
   \<and> submit demo_deps [''tmp'', ''hw1.zip''] ''lab1'' ''alice'' ''so'' False
        (Some ''2009.12.31 23:59:59'') demo_world
        = (Inl (SubmitedTooSoonError (upload_inactive_msg demo_deps
                  (2010, 1, 1, 0, 0, 0, 4, 1, -1) (2010, 12, 31, 23, 59, 59, 4, 365, -1))),
           demo_world)"
  using
    admission_window_inclusive [where d = demo_deps and w = demo_world and course_id = "''so''"
      and forced_upload_time = "Some ''2010.01.01 00:00:00''"
      and upload_time = "(2010, 1, 1, 0, 0, 0, 4, 1, -1)"
      and active_start = "(2010, 1, 1, 0, 0, 0, 4, 1, -1)"
      and active_stop = "(2010, 12, 31, 23, 59, 59, 4, 365, -1)"]
    admission_window_inclusive [where d = demo_deps and w = demo_world and course_id = "''so''"
      and forced_upload_time = "Some ''2010.12.31 23:59:59''"
      and upload_time = "(2010, 12, 31, 23, 59, 59, 4, 365, -1)"
      and active_start = "(2010, 1, 1, 0, 0, 0, 4, 1, -1)"
      and active_stop = "(2010, 12, 31, 23, 59, 59, 4, 365, -1)"]
    admission_window_inclusive [where d = demo_deps and w = demo_world and course_id = "''so''"
      and forced_upload_time = "Some ''2011.01.01 00:00:00''"
      and upload_time = "(2011, 1, 1, 0, 0, 0, 5, 1, -1)"
      and active_start = "(2010, 1, 1, 0, 0, 0, 4, 1, -1)"
      and active_stop = "(2010, 12, 31, 23, 59, 59, 4, 365, -1)"
      and archive_filename = "[''tmp'', ''hw1.zip'']" and assignment = "''lab1''"
      and user = "''alice''" and skip_time_check = False]
    admission_window_inclusive [where d = demo_deps and w = demo_world and course_id = "''so''"
      and forced_upload_time = "Some ''2009.12.31 23:59:59''"
      and upload_time = "(2009, 12, 31, 23, 59, 59, 3, 365, -1)"
      and active_start = "(2010, 1, 1, 0, 0, 0, 4, 1, -1)"
      and active_stop = "(2010, 12, 31, 23, 59, 59, 4, 365, -1)"
      and archive_filename = "[''tmp'', ''hw1.zip'']" and assignment = "''lab1''"
      and user = "''alice''" and skip_time_check = False]
  by (simp add: demo_deps_def demo_cfg_def demo_dates_def)

text \<open>
  C2. The claim is that a rejection for an upload outside the active interval has a
  kind of its own, distinct from the rejection of the rate limiter. Evaluated in the
  example installation: a first upload of \<^verbatim>\<open>alice\<close> for \<^verbatim>\<open>lab1\<close>, made after the
  end of the active interval when no earlier submission exists, and a second upload
  within the hour are both refused with an exception of the class
  \<^verbatim>\<open>SubmitedTooSoonError\<close>, the class that is documented as raised for a submission
  sent too soon after a previous one; the two differ in their message only.
\<close>

theorem window_rejection_kind_not_distinct:
  "\<not> submission_exists demo_deps demo_world demo_cfg ''lab1'' ''alice''
   \<and> fst (submit demo_deps [''tmp'', ''hw1.zip''] ''lab1'' ''alice'' ''so'' False
          (Some ''2011.01.01 00:00:00'') demo_world)
     = Inl (SubmitedTooSoonError
         ''You can only submit homework between 2010.01.01 00:00:00 and 2010.12.31 23:59:59.'')
   \<and> fst (submit demo_deps [''tmp'', ''hw1.zip''] ''lab1'' ''alice'' ''so'' False None
            demo_world_submitted)
     = Inl (SubmitedTooSoonError (too_fast_msg demo_deps 3600000000))
   \<and> exception_class (SubmitedTooSoonError
         ''You can only submit homework between 2010.01.01 00:00:00 and 2010.12.31 23:59:59.'')
     = exception_class (SubmitedTooSoonError (too_fast_msg demo_deps 3600000000))"
  by code_simp

subsection \<open>What the file-system operations leave unchanged\<close>

lemma makedirs_frame:
  "makedirs p w = (r, w') \<Longrightarrow> fs w' q \<noteq> fs w q \<Longrightarrow> prefix q p \<and> fs w q = None"
  by (auto simp: makedirs_def split: if_splits)

lemma makedirs_succeeds:
  "fs w p = None \<Longrightarrow> \<not> list_ex (is_file w) (prefixes p) \<Longrightarrow>
     makedirs p w = (Inr (), w\<lparr>fs := (\<lambda>q. if prefix q p \<and> fs w q = None then Some Dir else fs w q)\<rparr>)"
  by (simp add: makedirs_def path_exists_def)

lemma write_file_frame:
  "write_file p c w = (r, w') \<Longrightarrow> fs w' q \<noteq> fs w q \<Longrightarrow> q = p"
  by (auto simp: write_file_def split: if_splits)

lemma write_file_succeeds:
  "p \<noteq> [] \<Longrightarrow> fs w (butlast p) = Some Dir \<Longrightarrow> fs w p \<noteq> Some Dir \<Longrightarrow>
     write_file p c w = (Inr (), w\<lparr>fs := (fs w)(p \<mapsto> File c)\<rparr>)"
  by (simp add: write_file_def)

lemma copyfile_frame:
  "copyfile src dst w = (r, w') \<Longrightarrow> fs w' q \<noteq> fs w q \<Longrightarrow> q = dst"
  by (auto simp: copyfile_def split: if_splits option.splits node.splits dest: write_file_frame)

lemma copyfile_succeeds:
  "fs w src = Some (File c) \<Longrightarrow> src \<noteq> dst \<Longrightarrow> dst \<noteq> [] \<Longrightarrow> fs w (butlast dst) = Some Dir \<Longrightarrow>
   fs w dst \<noteq> Some Dir \<Longrightarrow>
     copyfile src dst w = (Inr (), w\<lparr>fs := (fs w)(dst \<mapsto> File c)\<rparr>)"
  by (simp add: copyfile_def write_file_succeeds)

lemma ensure_dir_frame:
  "ensure_dir p w = (r, w') \<Longrightarrow> fs w' q \<noteq> fs w q \<Longrightarrow> fs w q = None"
  by (auto simp: ensure_dir_def split: if_splits dest: makedirs_frame)

lemma extract_entries_frame:
  "extract_entries dest es w = (r, w') \<Longrightarrow> fs w' q \<noteq> fs w q \<Longrightarrow>
     fs w q = None \<or> strict_prefix dest q"
proof (induction dest es w arbitrary: r w' rule: extract_entries.induct)
  case (1 dest w)
  then show ?case by simp
next
  case (2 dest name c es w)
  show ?case
  proof (cases "segments name = []")
    case True
    with 2 show ?thesis by simp
  next
    case False
    obtain r1 w1 where e1: "ensure_dir (dest @ butlast (segments name)) w = (r1, w1)"
      by (cases "ensure_dir (dest @ butlast (segments name)) w")
    have f1: "fs w1 q \<noteq> fs w q \<Longrightarrow> fs w q = None"
      using ensure_dir_frame [OF e1] by blast
    show ?thesis
    proof (cases r1)
      case (Inl e)
      have "w' = w1"
        using 2(3) False e1 Inl by simp
      with 2(4) f1 show ?thesis by metis
    next
      case (Inr u)
      obtain r2 w2 where e2: "write_file (dest @ segments name) c w1 = (r2, w2)"
        by (cases "write_file (dest @ segments name) c w1")
      have f2: "fs w2 q \<noteq> fs w1 q \<Longrightarrow> strict_prefix dest q"
        using write_file_frame [OF e2, of q] False by (auto simp: strict_prefix_def)
      show ?thesis
      proof (cases r2)
        case (Inl e)
        have "w' = w2"
          using 2(3) False e1 e2 \<open>r1 = Inr u\<close> Inl by simp
        with 2(4) f1 f2 show ?thesis by metis
      next
        case (Inr u')
        have rest: "extract_entries dest es w2 = (r, w')"
          using 2(3) False e1 e2 \<open>r1 = Inr u\<close> Inr by simp
        have "fs w' q \<noteq> fs w2 q \<Longrightarrow> fs w2 q = None \<or> strict_prefix dest q"
          using "2.IH"(2) [OF False _ _ _ _ rest] e1 e2 \<open>r1 = Inr u\<close> Inr by auto
        with 2(4) f1 f2 show ?thesis by metis
      qed
    qed
  qed
qed

lemma unzip_safely_frame:
  assumes "unzip_safely a dest w = (r, w')" and "fs w' q \<noteq> fs w q"
  shows "fs w q = None \<or> strict_prefix dest q"
proof (cases "fs w a")
  case None
  with assms show ?thesis by (simp add: unzip_safely_def)
next
  case (Some n)
  show ?thesis
  proof (cases n)
    case Dir
    with Some assms show ?thesis by (simp add: unzip_safely_def)
  next
    case (File c)
    show ?thesis
    proof (cases c)
      case (Raw x)
      with Some File assms show ?thesis by (simp add: unzip_safely_def)
    next
      case (Zip entries)
      show ?thesis
      proof (cases "list_ex (\<lambda>e. unsafe_entry (fst e)) entries")
        case True
        with Some File Zip assms show ?thesis by (simp add: unzip_safely_def)
      next
        case False
        obtain r1 w1 where e1: "ensure_dir dest w = (r1, w1)"
          by (cases "ensure_dir dest w")
        have f1: "fs w1 q \<noteq> fs w q \<Longrightarrow> fs w q = None"
          using ensure_dir_frame [OF e1, of q] by blast
        show ?thesis
        proof (cases r1)
          case (Inl e)
          with Some File Zip False e1 assms f1 show ?thesis by (simp add: unzip_safely_def)
        next
          case (Inr u)
          then have rest: "extract_entries dest entries w1 = (r, w')"
            using Some File Zip False e1 assms(1) by (simp add: unzip_safely_def)
          from extract_entries_frame [OF rest, of q] assms(2) f1 show ?thesis by metis
        qed
      qed
    qed
  qed
qed

lemma unzip_safely_unsafe:
  "fs w a = Some (File (Zip entries)) \<Longrightarrow> list_ex (\<lambda>e. unsafe_entry (fst e)) entries \<Longrightarrow>
     unzip_safely a dest w = (Inl UnsafeArchiveRejected, w)"
  by (simp add: unzip_safely_def)

subsection \<open>The backup of a submission\<close>

lemma backup_paths_simps:
  "submission_archive_file b \<noteq> []" "submission_config_file b \<noteq> []"
  "butlast (submission_archive_file b) = b" "butlast (submission_config_file b) = b"
  "submission_config_file b \<noteq> submission_archive_file b"
  "submission_archive_file b \<noteq> submission_config_file b"
  "submission_archive_file b \<noteq> b" "submission_config_file b \<noteq> b"
  "b \<noteq> submission_archive_file b" "b \<noteq> submission_config_file b"
  "\<not> prefix (submission_archive_file b) b" "\<not> prefix (submission_config_file b) b"
  "\<not> prefix (dir_submission_expanded_archive b) b"
  "\<not> prefix (dir_submission_expanded_archive b) (submission_archive_file b)"
  "\<not> prefix (dir_submission_expanded_archive b) (submission_config_file b)"
  "\<not> strict_prefix (dir_submission_expanded_archive b) (submission_archive_file b)"
  "\<not> strict_prefix (dir_submission_expanded_archive b) (submission_config_file b)"
  by (simp_all add: submission_archive_file_def submission_config_file_def
        dir_submission_expanded_archive_def strict_prefix_def)

lemma prefix_of_prefix_not_under:
  "prefix p b \<Longrightarrow> \<not> prefix (dir_submission_expanded_archive b) p"
  by (auto simp: dir_submission_expanded_archive_def prefix_def)

lemma backup_first_steps:
  assumes arc: "fs w archive_filename = Some (File c)"
    and dir: "fs w back_dir = Some Dir
              \<or> (fs w back_dir = None \<and> \<not> list_ex (is_file w) (prefixes back_dir))"
    and zip: "fs w (submission_archive_file back_dir) \<noteq> Some Dir"
    and cfg: "fs w (submission_config_file back_dir) \<noteq> Some Dir"
    and ne1: "archive_filename \<noteq> submission_archive_file back_dir"
    and ne2: "archive_filename \<noteq> submission_config_file back_dir"
  shows "\<exists>w1 w2 w3. submission_backup back_dir archive_filename sbcfg w
                = unzip_safely archive_filename (dir_submission_expanded_archive back_dir) w3
           \<and> copyfile archive_filename (submission_archive_file back_dir) w1 = (Inr (), w2)
           \<and> write_file (submission_config_file back_dir) (Raw (config_write sbcfg)) w2 = (Inr (), w3)
           \<and> fs w1 (submission_config_file back_dir) = fs w (submission_config_file back_dir)
           \<and> fs w3 (submission_archive_file back_dir) = Some (File c)
           \<and> fs w3 (submission_config_file back_dir) = Some (File (Raw (config_write sbcfg)))
           \<and> fs w3 archive_filename = Some (File c)
           \<and> (\<forall>p. prefix (dir_submission_expanded_archive back_dir) p \<longrightarrow> fs w3 p = fs w p)"
proof -
  define w1 where "w1 = (if fs w back_dir = Some Dir then w
     else w\<lparr>fs := (\<lambda>q. if prefix q back_dir \<and> fs w q = None then Some Dir else fs w q)\<rparr>)"
  define w2 where "w2 = w1\<lparr>fs := (fs w1)(submission_archive_file back_dir \<mapsto> File c)\<rparr>"
  define w3 where "w3 = w2\<lparr>fs := (fs w2)(submission_config_file back_dir \<mapsto> File (Raw (config_write sbcfg)))\<rparr>"
  have s1: "(if \<not> path_exists w back_dir then makedirs back_dir w else (Inr (), w)) = (Inr (), w1)"
    using dir by (auto simp: w1_def path_exists_def makedirs_succeeds)
  have d1: "fs w1 back_dir = Some Dir"
    using dir by (auto simp: w1_def)
  have k1: "fs w1 q = fs w q" if "\<not> prefix q back_dir" for q
    using that by (simp add: w1_def)
  have a1: "fs w1 archive_filename = Some (File c)"
    using arc by (simp add: w1_def)
  have z1: "fs w1 (submission_archive_file back_dir) \<noteq> Some Dir"
    using zip k1 [of "submission_archive_file back_dir"] by (simp add: backup_paths_simps)
  have c1: "fs w1 (submission_config_file back_dir) \<noteq> Some Dir"
    using cfg k1 [of "submission_config_file back_dir"] by (simp add: backup_paths_simps)
  have s2: "copyfile archive_filename (submission_archive_file back_dir) w1 = (Inr (), w2)"
    unfolding w2_def
    by (rule copyfile_succeeds) (use a1 ne1 d1 z1 in \<open>simp_all add: backup_paths_simps\<close>)
  have s3: "write_file (submission_config_file back_dir) (Raw (config_write sbcfg)) w2 = (Inr (), w3)"
    unfolding w3_def
    by (rule write_file_succeeds) (use d1 c1 in \<open>simp_all add: w2_def backup_paths_simps\<close>)
  have run: "submission_backup back_dir archive_filename sbcfg w
      = unzip_safely archive_filename (dir_submission_expanded_archive back_dir) w3"
    by (simp add: submission_backup_def Let_def s1 s2 s3)
  have r1: "fs w3 (submission_archive_file back_dir) = Some (File c)"
    by (simp add: w3_def w2_def backup_paths_simps)
  have r2: "fs w3 (submission_config_file back_dir) = Some (File (Raw (config_write sbcfg)))"
    by (simp add: w3_def)
  have r3: "fs w3 archive_filename = Some (File c)"
    using a1 ne1 ne2 by (simp add: w3_def w2_def)
  have r4: "fs w3 p = fs w p" if "prefix (dir_submission_expanded_archive back_dir) p" for p
  proof -
    have "\<not> prefix p back_dir"
      using that prefix_of_prefix_not_under by blast
    moreover have "p \<noteq> submission_archive_file back_dir" "p \<noteq> submission_config_file back_dir"
      using that by (auto simp: backup_paths_simps)
    ultimately show ?thesis
      by (simp add: w3_def w2_def k1)
  qed
  have r0: "fs w1 (submission_config_file back_dir) = fs w (submission_config_file back_dir)"
    using k1 [of "submission_config_file back_dir"] by (simp add: backup_paths_simps)
  from run s2 s3 r0 r1 r2 r3 r4 show ?thesis by blast
qed

lemma write_file_ok:
  "write_file p c w = (Inr u, w') \<Longrightarrow> fs w' = (fs w)(p \<mapsto> File c)"
  by (auto simp: write_file_def split: if_splits)

lemma copyfile_ok:
  "copyfile src dst w = (Inr u, w') \<Longrightarrow> \<not> (src = dst \<and> fs w src \<noteq> None)"
  by (auto simp: copyfile_def path_exists_def split: if_splits)

lemma unzip_safely_refuses:
  assumes "fs w a = Some (File c)"
    and "\<And>entries. c = Zip entries \<Longrightarrow> list_ex (\<lambda>e. unsafe_entry (fst e)) entries"
  shows "\<exists>e. unzip_safely a dest w = (Inl e, w)"
  using assms by (cases c) (simp_all add: unzip_safely_def)

lemma submission_backup_unsafe:
  assumes arc: "fs w archive_filename = Some (File (Zip entries))"
    and unsafe: "list_ex (\<lambda>e. unsafe_entry (fst e)) entries"
    and res: "submission_backup back_dir archive_filename sbcfg w = (r, w')"
  shows "(\<exists>e. r = Inl e)
       \<and> (\<forall>p. fs w' p \<noteq> fs w p \<longrightarrow>
              p = submission_archive_file back_dir \<or> p = submission_config_file back_dir
              \<or> prefix p back_dir)"
proof -
  let ?zip = "submission_archive_file back_dir"
  let ?cfg = "submission_config_file back_dir"
  let ?arc = "dir_submission_expanded_archive back_dir"
  obtain r1 w1 where e1:
    "(if \<not> path_exists w back_dir then makedirs back_dir w else (Inr (), w)) = (r1, w1)"
    by (cases "if \<not> path_exists w back_dir then makedirs back_dir w else (Inr (), w)")
  have f1: "fs w1 p \<noteq> fs w p \<Longrightarrow> prefix p back_dir" for p
    using e1 makedirs_frame [of back_dir w r1 w1 p] by (auto split: if_splits)
  have a1: "fs w1 archive_filename = Some (File (Zip entries))"
    using e1 arc makedirs_frame [of back_dir w r1 w1 archive_filename]
    by (auto split: if_splits)
  show ?thesis
  proof (cases r1)
    case (Inl e)
    then have "r = Inl e" "w' = w1"
      using res e1 by (simp_all add: submission_backup_def Let_def)
    with f1 show ?thesis by blast
  next
    case u1: (Inr u)
    obtain r2 w2 where e2: "copyfile archive_filename ?zip w1 = (r2, w2)"
      by (cases "copyfile archive_filename ?zip w1")
    have f2: "fs w2 p \<noteq> fs w1 p \<Longrightarrow> p = ?zip" for p
      using copyfile_frame [OF e2, of p] by blast
    show ?thesis
    proof (cases r2)
      case (Inl e)
      then have "r = Inl e" "w' = w2"
        using res e1 e2 u1 by (simp_all add: submission_backup_def Let_def)
      with f1 f2 show ?thesis by metis
    next
      case u2: (Inr u')
      have ne: "archive_filename \<noteq> ?zip"
        using copyfile_ok [of archive_filename ?zip w1 u' w2] e2 u2 a1 by auto
      obtain r3 w3 where e3: "write_file ?cfg (Raw (config_write sbcfg)) w2 = (r3, w3)"
        by (cases "write_file ?cfg (Raw (config_write sbcfg)) w2")
      have f3: "fs w3 p \<noteq> fs w2 p \<Longrightarrow> p = ?cfg" for p
        using write_file_frame [OF e3, of p] by blast
      have frame: "fs w3 p \<noteq> fs w p \<Longrightarrow> p = ?zip \<or> p = ?cfg \<or> prefix p back_dir" for p
        using f1 f2 f3 by metis
      show ?thesis
      proof (cases r3)
        case (Inl e)
        then have "r = Inl e" "w' = w3"
          using res e1 e2 e3 u1 u2 by (simp_all add: submission_backup_def Let_def)
        with frame show ?thesis by blast
      next
        case u3: (Inr u'')
        have run: "unzip_safely archive_filename ?arc w3 = (r, w')"
          using res e1 e2 e3 u1 u2 u3 by (simp add: submission_backup_def Let_def)
        have w3fs: "fs w3 = (fs w2)(?cfg \<mapsto> File (Raw (config_write sbcfg)))"
          using write_file_ok e3 u3 by blast
        have "\<exists>c. fs w3 archive_filename = Some (File c)
                \<and> (\<forall>es. c = Zip es \<longrightarrow> list_ex (\<lambda>e. unsafe_entry (fst e)) es)"
        proof (cases "archive_filename = ?cfg")
          case True
          then show ?thesis by (simp add: w3fs)
        next
          case False
          have "fs w2 archive_filename = fs w1 archive_filename"
            using f2 [of archive_filename] ne by blast
          with False have "fs w3 archive_filename = fs w1 archive_filename"
            by (simp add: w3fs)
          with a1 unsafe show ?thesis by simp
        qed
        then obtain e where "unzip_safely archive_filename ?arc w3 = (Inl e, w3)"
          using unzip_safely_refuses by blast
        with run have "r = Inl e" "w' = w3" by simp_all
        with frame show ?thesis by blast
      qed
    qed
  qed
qed

text \<open>
  C1. For an archive with an unsafe entry (an absolute path or a \<^verbatim>\<open>..\<close> segment),
  \<^verbatim>\<open>submission_backup\<close> always ends with an exception; nothing at or below the
  expansion compartment is changed, and the only paths of the file system that change
  at all are the copy of the archive, the descriptor and the directories leading to the
  backup directory, so no entry of the archive is written anywhere. When the backup
  directory exists or can be created and the copy and the descriptor can be written, the
  exception is \<^verbatim>\<open>UnsafeArchiveRejected\<close>.
\<close>

theorem submission_backup_rejects_unsafe_archive:
  assumes arc: "fs w archive_filename = Some (File (Zip entries))"
    and unsafe: "list_ex (\<lambda>e. unsafe_entry (fst e)) entries"
    and res: "submission_backup back_dir archive_filename sbcfg w = (r, w')"
  shows "(\<exists>e. r = Inl e)
       \<and> (\<forall>p. prefix (dir_submission_expanded_archive back_dir) p \<longrightarrow> fs w' p = fs w p)
       \<and> (\<forall>p. fs w' p \<noteq> fs w p \<longrightarrow>
              p = submission_archive_file back_dir \<or> p = submission_config_file back_dir
              \<or> prefix p back_dir)
       \<and> ((fs w back_dir = Some Dir
             \<or> (fs w back_dir = None \<and> \<not> list_ex (is_file w) (prefixes back_dir)))
            \<and> fs w (submission_archive_file back_dir) \<noteq> Some Dir
            \<and> fs w (submission_config_file back_dir) \<noteq> Some Dir
            \<and> archive_filename \<noteq> submission_archive_file back_dir
            \<and> archive_filename \<noteq> submission_config_file back_dir
           \<longrightarrow> r = Inl UnsafeArchiveRejected)"
proof -
  note gen = submission_backup_unsafe [OF arc unsafe res]
  have untouched: "fs w' p = fs w p" if "prefix (dir_submission_expanded_archive back_dir) p" for p
  proof (rule ccontr)
    assume "fs w' p \<noteq> fs w p"
    with gen have "p = submission_archive_file back_dir \<or> p = submission_config_file back_dir
        \<or> prefix p back_dir"
      by blast
    with that show False
      using prefix_of_prefix_not_under [of p back_dir] by (auto simp: backup_paths_simps)
  qed
  have rejected: "r = Inl UnsafeArchiveRejected"
    if "fs w back_dir = Some Dir
          \<or> (fs w back_dir = None \<and> \<not> list_ex (is_file w) (prefixes back_dir))"
      and "fs w (submission_archive_file back_dir) \<noteq> Some Dir"
      and "fs w (submission_config_file back_dir) \<noteq> Some Dir"
      and "archive_filename \<noteq> submission_archive_file back_dir"
      and "archive_filename \<noteq> submission_config_file back_dir"
  proof -
    from backup_first_steps [OF arc that, of sbcfg] obtain w3 where
      run: "submission_backup back_dir archive_filename sbcfg w
              = unzip_safely archive_filename (dir_submission_expanded_archive back_dir) w3"
      and a3: "fs w3 archive_filename = Some (File (Zip entries))"
      by blast
    from unzip_safely_unsafe [OF a3 unsafe] run res show ?thesis by simp
  qed
  from gen untouched rejected show ?thesis by blast
qed

theorem submission_backup_rejects_unsafe_archive_witness:
  "fs demo_world [''tmp'', ''bad.zip'']
     = Some (File (Zip [(''main.c'', Raw ''int main() { return 0; }''), (''../../config'', Raw ''x'')]))
   \<and> list_ex (\<lambda>e. unsafe_entry (fst e))
        [(''main.c'', Raw ''int main() { return 0; }''), (''../../config'', Raw ''x'')]
   \<and> fst (submission_backup [''srv'', ''so'', ''repo'', ''lab1'', ''alice''] [''tmp'', ''bad.zip'']
            [] demo_world) = Inl UnsafeArchiveRejected
   \<and> fs (snd (submission_backup [''srv'', ''so'', ''repo'', ''lab1'', ''alice'']
                 [''tmp'', ''bad.zip''] [] demo_world))
        [''srv'', ''so'', ''repo'', ''lab1'', ''alice'', ''archive'', ''main.c'']
       = fs demo_world [''srv'', ''so'', ''repo'', ''lab1'', ''alice'', ''archive'', ''main.c'']
   \<and> fs (snd (submission_backup [''srv'', ''so'', ''repo'', ''lab1'', ''alice'']
                 [''tmp'', ''bad.zip''] [] demo_world))
        [''srv'', ''so'', ''repo'', ''lab1'', ''config'']
       = fs demo_world [''srv'', ''so'', ''repo'', ''lab1'', ''config'']"
proof -
  let ?bd = "[''srv'', ''so'', ''repo'', ''lab1'', ''alice'']"
  let ?res = "submission_backup ?bd [''tmp'', ''bad.zip''] [] demo_world"
  have h1: "fs demo_world [''tmp'', ''bad.zip'']
     = Some (File (Zip [(''main.c'', Raw ''int main() { return 0; }''), (''../../config'', Raw ''x'')]))"
    by code_simp
  have h2: "list_ex (\<lambda>e. unsafe_entry (fst e))
        [(''main.c'', Raw ''int main() { return 0; }''), (''../../config'', Raw ''x'')]"
    by code_simp
  have h3: "?res = (fst ?res, snd ?res)"
    by simp
  note t = submission_backup_rejects_unsafe_archive [OF h1 h2 h3]
  have pre: "(fs demo_world ?bd = Some Dir
             \<or> (fs demo_world ?bd = None \<and> \<not> list_ex (is_file demo_world) (prefixes ?bd)))
            \<and> fs demo_world (submission_archive_file ?bd) \<noteq> Some Dir
            \<and> fs demo_world (submission_config_file ?bd) \<noteq> Some Dir
            \<and> [''tmp'', ''bad.zip''] \<noteq> submission_archive_file ?bd
            \<and> [''tmp'', ''bad.zip''] \<noteq> submission_config_file ?bd"
    by code_simp
  have c1: "fst ?res = Inl UnsafeArchiveRejected"
    using t pre by blast
  have c2: "fs (snd ?res) (?bd @ [''archive'', ''main.c'']) = fs demo_world (?bd @ [''archive'', ''main.c''])"
    using t by (simp add: dir_submission_expanded_archive_def)
  have c3: "fs (snd ?res) [''srv'', ''so'', ''repo'', ''lab1'', ''config'']
       = fs demo_world [''srv'', ''so'', ''repo'', ''lab1'', ''config'']"
  proof (rule ccontr)
    assume "\<not> ?thesis"
    with t have "[''srv'', ''so'', ''repo'', ''lab1'', ''config''] = submission_archive_file ?bd
        \<or> [''srv'', ''so'', ''repo'', ''lab1'', ''config''] = submission_config_file ?bd
        \<or> prefix [''srv'', ''so'', ''repo'', ''lab1'', ''config''] ?bd"
      by blast
    then show False
      by (simp add: submission_archive_file_def submission_config_file_def)
  qed
  from h1 h2 c1 c2 c3 show ?thesis by simp
qed


text \<open>
  C8. Within one \<^verbatim>\<open>submission_backup\<close> of a readable archive the steps come in this
  order. When the backup directory neither exists nor can be created, the call fails
  and changes nothing. When the copy of the archive cannot be made, the call fails with
  the descriptor and the expansion compartment as they were: nothing is written before
  the copy. Once the copy can be made it is in the backup directory at the end,
  whatever happens afterwards: when the descriptor cannot be written the call fails
  with \<^verbatim>\<open>IOError\<close>, the copy in place and the expansion compartment as it was; when
  the descriptor can be written, the expansion is attempted only with the copy and the
  descriptor in place, and both are still there whatever the expansion returns.
\<close>

theorem backup_copy_then_descriptor_then_expansion:
  assumes arc: "fs w archive_filename = Some (File c)"
    and res: "submission_backup back_dir archive_filename sbcfg w = (r, w')"
  shows "(\<not> (fs w back_dir = Some Dir
             \<or> (fs w back_dir = None \<and> \<not> list_ex (is_file w) (prefixes back_dir))) \<longrightarrow>
            (\<exists>e. r = Inl e) \<and> w' = w)
       \<and> ((fs w back_dir = Some Dir
             \<or> (fs w back_dir = None \<and> \<not> list_ex (is_file w) (prefixes back_dir)))
            \<and> (fs w (submission_archive_file back_dir) = Some Dir
                 \<or> archive_filename = submission_archive_file back_dir) \<longrightarrow>
            (\<exists>e. r = Inl e)
            \<and> fs w' (submission_config_file back_dir) = fs w (submission_config_file back_dir)
            \<and> (\<forall>p. prefix (dir_submission_expanded_archive back_dir) p \<longrightarrow> fs w' p = fs w p))
       \<and> ((fs w back_dir = Some Dir
             \<or> (fs w back_dir = None \<and> \<not> list_ex (is_file w) (prefixes back_dir)))
            \<and> fs w (submission_archive_file back_dir) \<noteq> Some Dir
            \<and> archive_filename \<noteq> submission_archive_file back_dir \<longrightarrow>
            fs w' (submission_archive_file back_dir) = Some (File c))
       \<and> ((fs w back_dir = Some Dir
             \<or> (fs w back_dir = None \<and> \<not> list_ex (is_file w) (prefixes back_dir)))
            \<and> fs w (submission_archive_file back_dir) \<noteq> Some Dir
            \<and> archive_filename \<noteq> submission_archive_file back_dir
            \<and> fs w (submission_config_file back_dir) = Some Dir \<longrightarrow>
            r = Inl IOError
            \<and> (\<forall>p. prefix (dir_submission_expanded_archive back_dir) p \<longrightarrow> fs w' p = fs w p))
       \<and> ((fs w back_dir = Some Dir
             \<or> (fs w back_dir = None \<and> \<not> list_ex (is_file w) (prefixes back_dir)))
            \<and> fs w (submission_archive_file back_dir) \<noteq> Some Dir
            \<and> archive_filename \<noteq> submission_archive_file back_dir
            \<and> fs w (submission_config_file back_dir) \<noteq> Some Dir \<longrightarrow>
            fs w' (submission_config_file back_dir) = Some (File (Raw (config_write sbcfg)))
            \<and> (\<exists>w3. (\<forall>p. prefix (dir_submission_expanded_archive back_dir) p \<longrightarrow> fs w3 p = fs w p)
                  \<and> fs w3 (submission_archive_file back_dir) = Some (File c)
                  \<and> fs w3 (submission_config_file back_dir) = Some (File (Raw (config_write sbcfg)))
                  \<and> unzip_safely archive_filename (dir_submission_expanded_archive back_dir) w3
                      = (r, w')))"
proof (cases "fs w back_dir = Some Dir
             \<or> (fs w back_dir = None \<and> \<not> list_ex (is_file w) (prefixes back_dir))")
  case False
  have "(\<exists>e. r = Inl e) \<and> w' = w"
  proof (cases "fs w back_dir")
    case None
    with False res show ?thesis
      by (auto simp: submission_backup_def Let_def path_exists_def makedirs_def)
  next
    case (Some n)
    with False have nd: "fs w back_dir \<noteq> Some Dir" by simp
    have "copyfile archive_filename (submission_archive_file back_dir) w
            = (Inl ShutilError, w)
          \<or> copyfile archive_filename (submission_archive_file back_dir) w = (Inl IOError, w)"
      using arc nd
      by (simp add: copyfile_def write_file_def path_exists_def backup_paths_simps)
    with Some res show ?thesis
      by (auto simp: submission_backup_def Let_def path_exists_def)
  qed
  with False show ?thesis by blast
next
  case dir: True
  let ?zip = "submission_archive_file back_dir"
  let ?cfg = "submission_config_file back_dir"
  let ?arc = "dir_submission_expanded_archive back_dir"
  define w1 where "w1 = (if fs w back_dir = Some Dir then w
     else w\<lparr>fs := (\<lambda>q. if prefix q back_dir \<and> fs w q = None then Some Dir else fs w q)\<rparr>)"
  have s1: "(if \<not> path_exists w back_dir then makedirs back_dir w else (Inr (), w)) = (Inr (), w1)"
    using dir by (auto simp: w1_def path_exists_def makedirs_succeeds)
  have d1: "fs w1 back_dir = Some Dir"
    using dir by (auto simp: w1_def)
  have k1: "fs w1 q = fs w q" if "\<not> prefix q back_dir" for q
    using that by (simp add: w1_def)
  have a1: "fs w1 archive_filename = Some (File c)"
    using arc by (simp add: w1_def)
  have z1: "fs w1 ?zip = fs w ?zip"
    using k1 [of ?zip] by (simp add: backup_paths_simps)
  have c1: "fs w1 ?cfg = fs w ?cfg"
    using k1 [of ?cfg] by (simp add: backup_paths_simps)
  have x1: "fs w1 p = fs w p" if "prefix ?arc p" for p
    using that k1 [of p] prefix_of_prefix_not_under [of p back_dir] by blast
  have run1: "submission_backup back_dir archive_filename sbcfg w
      = (case copyfile archive_filename ?zip w1 of
           (Inl e, w2) \<Rightarrow> (Inl e, w2)
         | (Inr u2, w2) \<Rightarrow>
             (case write_file ?cfg (Raw (config_write sbcfg)) w2 of
                (Inl e, w3) \<Rightarrow> (Inl e, w3)
              | (Inr u3, w3) \<Rightarrow> unzip_safely archive_filename ?arc w3))"
    by (simp add: submission_backup_def Let_def s1)
  show ?thesis
  proof (cases "fs w ?zip = Some Dir \<or> archive_filename = ?zip")
    case True
    have "copyfile archive_filename ?zip w1 = (Inl ShutilError, w1)
          \<or> copyfile archive_filename ?zip w1 = (Inl IOError, w1)"
      using True a1 z1 by (auto simp: copyfile_def write_file_def path_exists_def)
    with run1 res have "(\<exists>e. r = Inl e) \<and> w' = w1"
      by auto
    with True dir c1 x1 show ?thesis by auto
  next
    case copy: False
    define w2 where "w2 = w1\<lparr>fs := (fs w1)(?zip \<mapsto> File c)\<rparr>"
    have s2: "copyfile archive_filename ?zip w1 = (Inr (), w2)"
      unfolding w2_def
      by (rule copyfile_succeeds) (use a1 copy d1 z1 in \<open>simp_all add: backup_paths_simps\<close>)
    have run2: "submission_backup back_dir archive_filename sbcfg w
      = (case write_file ?cfg (Raw (config_write sbcfg)) w2 of
                (Inl e, w3) \<Rightarrow> (Inl e, w3)
              | (Inr u3, w3) \<Rightarrow> unzip_safely archive_filename ?arc w3)"
      by (simp add: run1 s2)
    have z2: "fs w2 ?zip = Some (File c)"
      by (simp add: w2_def)
    have x2: "fs w2 p = fs w p" if "prefix ?arc p" for p
      using that x1 [of p] by (auto simp: w2_def backup_paths_simps)
    show ?thesis
    proof (cases "fs w ?cfg = Some Dir")
      case True
      then have "write_file ?cfg (Raw (config_write sbcfg)) w2 = (Inl IOError, w2)"
        using c1 d1 by (simp add: write_file_def w2_def backup_paths_simps)
      with run2 res have "r = Inl IOError" "w' = w2"
        by simp_all
      with True dir copy z2 x2 show ?thesis by auto
    next
      case desc: False
      define w3 where "w3 = w2\<lparr>fs := (fs w2)(?cfg \<mapsto> File (Raw (config_write sbcfg)))\<rparr>"
      have s3: "write_file ?cfg (Raw (config_write sbcfg)) w2 = (Inr (), w3)"
        unfolding w3_def
        by (rule write_file_succeeds)
           (use d1 desc c1 in \<open>simp_all add: w2_def backup_paths_simps\<close>)
      have un: "unzip_safely archive_filename ?arc w3 = (r, w')"
        using run2 s3 res by simp
      have z3: "fs w3 ?zip = Some (File c)"
        using z2 by (simp add: w3_def backup_paths_simps)
      have c3: "fs w3 ?cfg = Some (File (Raw (config_write sbcfg)))"
        by (simp add: w3_def)
      have x3: "\<forall>p. prefix ?arc p \<longrightarrow> fs w3 p = fs w p"
        using x2 by (auto simp: w3_def backup_paths_simps)
      have kz: "fs w' ?zip = Some (File c)"
        using unzip_safely_frame [OF un, of ?zip] z3 by (auto simp: backup_paths_simps)
      have kc: "fs w' ?cfg = Some (File (Raw (config_write sbcfg)))"
        using unzip_safely_frame [OF un, of ?cfg] c3 by (auto simp: backup_paths_simps)
      have "\<exists>w3. (\<forall>p. prefix ?arc p \<longrightarrow> fs w3 p = fs w p)
                  \<and> fs w3 ?zip = Some (File c)
                  \<and> fs w3 ?cfg = Some (File (Raw (config_write sbcfg)))
                  \<and> unzip_safely archive_filename ?arc w3 = (r, w')"
        using x3 z3 c3 un by blast
      with dir copy desc kz kc show ?thesis by simp
    qed
  qed
qed


theorem backup_copy_then_descriptor_then_expansion_witness:
  "fs demo_world_descriptor_dir [''tmp'', ''hw1.zip''] = Some (File demo_archive)
   \<and> fs demo_world_descriptor_dir
        (submission_config_file [''srv'', ''so'', ''repo'', ''lab1'', ''alice'']) = Some Dir
   \<and> fst (submission_backup [''srv'', ''so'', ''repo'', ''lab1'', ''alice''] [''tmp'', ''hw1.zip'']
            [(''Assignment'', [(''user'', ''alice'')])] demo_world_descriptor_dir) = Inl IOError
   \<and> fs (snd (submission_backup [''srv'', ''so'', ''repo'', ''lab1'', ''alice'']
                 [''tmp'', ''hw1.zip''] [(''Assignment'', [(''user'', ''alice'')])]
                 demo_world_descriptor_dir))
        (submission_archive_file [''srv'', ''so'', ''repo'', ''lab1'', ''alice''])
       = Some (File demo_archive)
   \<and> fs demo_world [''tmp'', ''broken.zip''] = Some (File (Raw ''PK''))
   \<and> fst (submission_backup [''srv'', ''so'', ''repo'', ''lab1'', ''alice'']
            [''tmp'', ''broken.zip''] [(''Assignment'', [(''user'', ''alice'')])] demo_world)
       = Inl BadZipfile
   \<and> fs (snd (submission_backup [''srv'', ''so'', ''repo'', ''lab1'', ''alice'']
                 [''tmp'', ''broken.zip''] [(''Assignment'', [(''user'', ''alice'')])] demo_world))
        (submission_archive_file [''srv'', ''so'', ''repo'', ''lab1'', ''alice''])
       = Some (File (Raw ''PK''))
   \<and> fs (snd (submission_backup [''srv'', ''so'', ''repo'', ''lab1'', ''alice'']
                 [''tmp'', ''broken.zip''] [(''Assignment'', [(''user'', ''alice'')])] demo_world))
        (submission_config_file [''srv'', ''so'', ''repo'', ''lab1'', ''alice''])
       = Some (File (Raw (config_write [(''Assignment'', [(''user'', ''alice'')])])))"
proof -
  let ?bd = "[''srv'', ''so'', ''repo'', ''lab1'', ''alice'']"
  let ?cp = "[(''Assignment'', [(''user'', ''alice'')])]"
  let ?r1 = "submission_backup ?bd [''tmp'', ''hw1.zip''] ?cp demo_world_descriptor_dir"
  let ?r2 = "submission_backup ?bd [''tmp'', ''broken.zip''] ?cp demo_world"
  have a1: "fs demo_world_descriptor_dir [''tmp'', ''hw1.zip''] = Some (File demo_archive)"
    by code_simp
  have a2: "fs demo_world [''tmp'', ''broken.zip''] = Some (File (Raw ''PK''))"
    by code_simp
  have p1: "(fs demo_world_descriptor_dir ?bd = Some Dir
             \<or> (fs demo_world_descriptor_dir ?bd = None
                 \<and> \<not> list_ex (is_file demo_world_descriptor_dir) (prefixes ?bd)))
            \<and> fs demo_world_descriptor_dir (submission_archive_file ?bd) \<noteq> Some Dir
            \<and> [''tmp'', ''hw1.zip''] \<noteq> submission_archive_file ?bd
            \<and> fs demo_world_descriptor_dir (submission_config_file ?bd) = Some Dir"
    by code_simp
  have p2: "(fs demo_world ?bd = Some Dir
             \<or> (fs demo_world ?bd = None \<and> \<not> list_ex (is_file demo_world) (prefixes ?bd)))
            \<and> fs demo_world (submission_archive_file ?bd) \<noteq> Some Dir
            \<and> [''tmp'', ''broken.zip''] \<noteq> submission_archive_file ?bd
            \<and> fs demo_world (submission_config_file ?bd) \<noteq> Some Dir"
    by code_simp
  have q1: "(fs demo_world_descriptor_dir ?bd = Some Dir
             \<or> (fs demo_world_descriptor_dir ?bd = None
                 \<and> \<not> list_ex (is_file demo_world_descriptor_dir) (prefixes ?bd)))
            \<and> fs demo_world_descriptor_dir (submission_archive_file ?bd) \<noteq> Some Dir
            \<and> [''tmp'', ''hw1.zip''] \<noteq> submission_archive_file ?bd"
    by code_simp
  have q2: "(fs demo_world ?bd = Some Dir
             \<or> (fs demo_world ?bd = None \<and> \<not> list_ex (is_file demo_world) (prefixes ?bd)))
            \<and> fs demo_world (submission_archive_file ?bd) \<noteq> Some Dir
            \<and> [''tmp'', ''broken.zip''] \<noteq> submission_archive_file ?bd"
    by code_simp
  have d1: "fs demo_world_descriptor_dir (submission_config_file ?bd) = Some Dir"
    by code_simp
  have ev: "fst ?r2 = Inl BadZipfile"
    by code_simp
  have h1: "?r1 = (fst ?r1, snd ?r1)" and h2: "?r2 = (fst ?r2, snd ?r2)"
    by simp_all
  note t1 = backup_copy_then_descriptor_then_expansion [OF a1 h1]
  note t2 = backup_copy_then_descriptor_then_expansion [OF a2 h2]
  have c1: "fst ?r1 = Inl IOError"
    using t1 [THEN conjunct2, THEN conjunct2, THEN conjunct2, THEN conjunct1, THEN mp, OF p1]
    by (rule conjunct1)
  have c2: "fs (snd ?r1) (submission_archive_file ?bd) = Some (File demo_archive)"
    using t1 [THEN conjunct2, THEN conjunct2, THEN conjunct1, THEN mp, OF q1] .
  have c3: "fs (snd ?r2) (submission_archive_file ?bd) = Some (File (Raw ''PK''))"
    using t2 [THEN conjunct2, THEN conjunct2, THEN conjunct1, THEN mp, OF q2] .
  have c4: "fs (snd ?r2) (submission_config_file ?bd) = Some (File (Raw (config_write ?cp)))"
    using t2 [THEN conjunct2, THEN conjunct2, THEN conjunct2, THEN conjunct2, THEN mp, OF p2]
    by (rule conjunct1)
  from a1 a2 d1 ev c1 c2 c3 c4 show ?thesis by simp
qed


subsection \<open>Reading back a written configuration\<close>

lemma split_on_nonempty: "split_on c xs \<noteq> []"
  by (induction xs) (auto split: list.splits)

lemma split_on_append: "split_on c (xs @ c # ys) = split_on c xs @ split_on c ys"
  by (induction xs) (auto split: list.splits simp: split_on_nonempty)

lemma split_on_prefix:
  "c \<notin> set p \<Longrightarrow> split_on c (p @ xs) = (case split_on c xs of [] \<Rightarrow> [] | l # ls \<Rightarrow> (p @ l) # ls)"
  by (induction p) (auto split: list.splits simp: split_on_nonempty)

lemma split_on_no_sep: "c \<notin> set xs \<Longrightarrow> split_on c xs = [xs]"
  by (induction xs) (auto split: list.splits)

lemma split_replace_newlines:
  "split_on (CHR 0x0A) (replace_newlines v)
     = (case split_on (CHR 0x0A) v of [] \<Rightarrow> [] | l # ls \<Rightarrow> l # map ((#) (CHR 0x09)) ls)"
  by (induction v) (auto simp: replace_newlines_def split_on_nonempty split: list.splits)

lemma read_lines_append:
  "read_lines (xs @ ys) st = (case read_lines xs st of None \<Rightarrow> None | Some st' \<Rightarrow> read_lines ys st')"
  by (induction xs arbitrary: st) (auto split: option.splits)

lemma map_of_section_update:
  "map_of (section_update s f cp) s' = (if s' = s then map_option f (map_of cp s) else map_of cp s')"
  by (induction cp) (auto simp: section_update_def)

lemma lookup_section_update_update:
  "lookup_option (section_update s (AList.update k v) cp) s' k'
     = (if s' = s \<and> k' = k \<and> map_of cp s \<noteq> None then Some v else lookup_option cp s' k')"
  by (auto simp: lookup_option_def map_of_section_update update_conv' split: option.splits)

lemma lookup_section_update_map_entry:
  "k' \<noteq> k \<Longrightarrow> lookup_option (section_update s (AList.map_entry k f) cp) s' k'
     = lookup_option cp s' k'"
  by (auto simp: lookup_option_def map_of_section_update map_of_map_entry split: option.splits)

lemma rstrip_empty_iff: "rstrip xs = [] \<longleftrightarrow> (\<forall>x\<in>set xs. isspace x)"
  by (simp add: rstrip_def dropWhile_eq_Nil_conv)

lemma strip_nonempty: "\<not> isspace c \<Longrightarrow> strip (c # xs) \<noteq> []"
  by (simp add: strip_def lstrip_def rstrip_empty_iff)

lemma lstrip_id: "xs = [] \<or> \<not> isspace (hd xs) \<Longrightarrow> lstrip xs = xs"
  by (cases xs) (auto simp: lstrip_def)

lemma rstrip_id: "xs = [] \<or> \<not> isspace (last xs) \<Longrightarrow> rstrip xs = xs"
  by (cases xs rule: rev_cases) (auto simp: rstrip_def)


lemma isspace_not_special:
  "isspace c \<Longrightarrow> c \<noteq> CHR ''#'' \<and> c \<noteq> CHR '';'' \<and> c \<noteq> CHR ''r'' \<and> c \<noteq> CHR ''R''
     \<and> c \<noteq> CHR ''[''"
  by (auto simp: isspace_def)

lemma read_continuation_line:
  assumes "isspace c"
  shows "\<exists>cp'. read_line (c # x) (cp, Some s, Some name) = Some (cp', Some s, Some name)
           \<and> (\<forall>s' k. k \<noteq> name \<longrightarrow> lookup_option cp' s' k = lookup_option cp s' k)
           \<and> (map_of cp' s \<noteq> None \<longleftrightarrow> map_of cp s \<noteq> None)"
proof (cases "strip (c # x) = []")
  case True
  then show ?thesis by (simp add: read_line_def)
next
  case False
  then have "read_line (c # x) (cp, Some s, Some name)
      = Some (section_update s (AList.map_entry name (\<lambda>v. v @ [CHR 0x0A] @ strip (c # x))) cp,
              Some s, Some name)"
    using assms isspace_not_special [OF assms] by (simp add: read_line_def)
  then show ?thesis
    by (simp add: lookup_section_update_map_entry map_of_section_update)
qed

lemma read_continuation_lines:
  assumes "\<forall>l\<in>set ls. \<exists>c x. l = c # x \<and> isspace c"
  shows "\<exists>cp'. read_lines ls (cp, Some s, Some name) = Some (cp', Some s, Some name)
           \<and> (\<forall>s' k. k \<noteq> name \<longrightarrow> lookup_option cp' s' k = lookup_option cp s' k)
           \<and> (map_of cp' s \<noteq> None \<longleftrightarrow> map_of cp s \<noteq> None)"
  using assms
proof (induction ls arbitrary: cp)
  case Nil
  then show ?case by simp
next
  case (Cons l ls)
  then obtain c x where l: "l = c # x" and sp: "isspace c"
    by auto
  from read_continuation_line [OF sp, of x cp s name] obtain cp1 where
    r1: "read_line l (cp, Some s, Some name) = Some (cp1, Some s, Some name)"
    and k1: "\<forall>s' k. k \<noteq> name \<longrightarrow> lookup_option cp1 s' k = lookup_option cp s' k"
    and m1: "map_of cp1 s \<noteq> None \<longleftrightarrow> map_of cp s \<noteq> None"
    unfolding l by blast
  from Cons.IH [of cp1] Cons.prems obtain cp2 where
    r2: "read_lines ls (cp1, Some s, Some name) = Some (cp2, Some s, Some name)"
    and k2: "\<forall>s' k. k \<noteq> name \<longrightarrow> lookup_option cp2 s' k = lookup_option cp1 s' k"
    and m2: "map_of cp2 s \<noteq> None \<longleftrightarrow> map_of cp1 s \<noteq> None"
    by auto
  from r1 r2 k1 k2 m1 m2 show ?case by simp
qed

lemma read_option_line_key:
  assumes ne: "k \<noteq> []"
    and chars: "\<forall>c\<in>set k. \<not> isspace c \<and> c \<noteq> CHR '':'' \<and> c \<noteq> CHR ''=''"
    and first: "hd k \<noteq> CHR ''#''" "hd k \<noteq> CHR '';''" "hd k \<noteq> CHR ''[''"
    and low: "lower k = k"
    and rem: "k \<noteq> ''rem''"
  shows "read_line (k @ '' = '' @ v0) (cp, Some s, on)
           = Some (section_update s (AList.update k (option_value (lstrip v0))) cp, Some s, Some k)"
proof -
  obtain c ks where k: "k = c # ks"
    using ne by (cases k) auto
  have c: "\<not> isspace c" "c \<noteq> CHR ''#''" "c \<noteq> CHR '';''" "c \<noteq> CHR ''[''"
    using chars first by (auto simp: k)
  have sp: "isspace (CHR '' '')"
    by (simp add: isspace_def)
  define tail where "tail = ks @ '' = '' @ v0"
  define line where "line = k @ '' = '' @ v0"
  define name where "name = k @ '' ''"
  have line: "line = c # tail"
    by (simp add: line_def tail_def k)
  have nonblank: "strip line \<noteq> []"
    unfolding line using c(1) by (rule strip_nonempty)
  have ls: "lstrip line = line"
    unfolding line using c(1) by (simp add: lstrip_def)
  have tok: "takeWhile (\<lambda>x. \<not> isspace x) line = k"
    unfolding line_def using chars sp by (simp add: takeWhile_append2)
  have notrem: "lower (takeWhile (\<lambda>x. \<not> isspace x) (lstrip line)) \<noteq> ''rem''"
    unfolding ls tok using low rem by simp
  have nosec: "match_section line = None"
    unfolding line using c(4) by (simp add: match_section_def)
  have tw: "takeWhile (\<lambda>x. x \<noteq> CHR '':'' \<and> x \<noteq> CHR ''='') line = name"
    unfolding line_def name_def using chars by (simp add: takeWhile_append2)
  have dw: "dropWhile (\<lambda>x. x \<noteq> CHR '':'' \<and> x \<noteq> CHR ''='') line = CHR ''='' # CHR '' '' # v0"
    unfolding line_def using chars by (simp add: dropWhile_append2)
  have nm: "name = c # (ks @ '' '')"
    by (simp add: name_def k)
  have mo: "match_option line = Some (name, lstrip v0)"
    unfolding match_option_def tw dw
    using c(1) sp by (simp add: nm lstrip_def)
  have "\<not> isspace (last k)"
    using chars ne by (metis last_in_set)
  then have rs: "rstrip name = k"
    unfolding name_def using ne sp by (cases k rule: rev_cases) (auto simp: rstrip_def)
  have opt: "read_option_line line cp (Some s)
      = Some (section_update s (AList.update k (option_value (lstrip v0))) cp, Some s, Some k)"
    by (simp add: read_option_line_def mo rs low)
  have "read_line (c # tail) (cp, Some s, on) = read_option_line (c # tail) cp (Some s)"
    using nonblank [unfolded line] notrem [unfolded line] c nosec [unfolded line]
    by (simp add: read_line_def split: option.splits)
  then have "read_line line (cp, Some s, on)
      = Some (section_update s (AList.update k (option_value (lstrip v0))) cp, Some s, Some k)"
    using opt by (simp add: line)
  then show ?thesis
    by (simp add: line_def)
qed

lemma option_value_plain: "plain_value v \<Longrightarrow> option_value (lstrip v) = v"
  by (simp add: plain_value_def option_value_def strip_def Let_def)


lemma read_written_option:
  assumes key: "plain_key k" and sec: "map_of cp s \<noteq> None"
  shows "\<exists>cp'. read_lines (split_on (CHR 0x0A) (k @ '' = '' @ replace_newlines v)) (cp, Some s, on)
                = Some (cp', Some s, Some k)
           \<and> (\<forall>k'. k' \<noteq> k \<longrightarrow> lookup_option cp' s k' = lookup_option cp s k')
           \<and> map_of cp' s \<noteq> None
           \<and> (plain_value v \<longrightarrow> lookup_option cp' s k = Some v)"
proof -
  have ne: "k \<noteq> []"
    and chars: "\<forall>c\<in>set k. \<not> isspace c \<and> c \<noteq> CHR '':'' \<and> c \<noteq> CHR ''=''"
    and first: "hd k \<noteq> CHR ''#''" "hd k \<noteq> CHR '';''" "hd k \<noteq> CHR ''[''"
    and low: "lower k = k" and rem: "k \<noteq> ''rem''"
    using key by (simp_all add: plain_key_def list_all_iff)
  obtain l0 ls0 where sv: "split_on (CHR 0x0A) v = l0 # ls0"
    using split_on_nonempty [of "CHR 0x0A" v] by (cases "split_on (CHR 0x0A) v") auto
  have "isspace (CHR 0x0A)"
    by (simp add: isspace_def)
  with chars have nonl: "CHR 0x0A \<notin> set (k @ '' = '')"
    by auto
  have lines: "split_on (CHR 0x0A) (k @ '' = '' @ replace_newlines v)
      = (k @ '' = '' @ l0) # map ((#) (CHR 0x09)) ls0"
    using split_on_prefix [OF nonl, of "replace_newlines v"]
    by (simp add: split_replace_newlines sv)
  define cp1 where "cp1 = section_update s (AList.update k (option_value (lstrip l0))) cp"
  have first_line: "read_line (k @ '' = '' @ l0) (cp, Some s, on) = Some (cp1, Some s, Some k)"
    unfolding cp1_def by (rule read_option_line_key [OF ne chars first low rem])
  have cont: "\<forall>l\<in>set (map ((#) (CHR 0x09)) ls0). \<exists>c x. l = c # x \<and> isspace c"
    by (auto simp: isspace_def)
  from read_continuation_lines [OF cont, of cp1 s k] obtain cp' where
    r: "read_lines (map ((#) (CHR 0x09)) ls0) (cp1, Some s, Some k) = Some (cp', Some s, Some k)"
    and keep: "\<forall>s' k'. k' \<noteq> k \<longrightarrow> lookup_option cp' s' k' = lookup_option cp1 s' k'"
    and m: "map_of cp' s \<noteq> None \<longleftrightarrow> map_of cp1 s \<noteq> None"
    by blast
  have run: "read_lines (split_on (CHR 0x0A) (k @ '' = '' @ replace_newlines v)) (cp, Some s, on)
      = Some (cp', Some s, Some k)"
    unfolding lines using first_line r by simp
  have others: "\<forall>k'. k' \<noteq> k \<longrightarrow> lookup_option cp' s k' = lookup_option cp s k'"
    using keep by (simp add: cp1_def lookup_section_update_update)
  have m1: "map_of cp' s \<noteq> None"
    using m sec by (simp add: cp1_def map_of_section_update)
  have plain: "lookup_option cp' s k = Some v" if "plain_value v"
  proof -
    from that have "CHR 0x0A \<notin> set v"
      by (simp add: plain_value_def)
    then have "l0 = v" "ls0 = []"
      using sv by (simp_all add: split_on_no_sep)
    then have "cp' = cp1"
      using r by simp
    then show ?thesis
      using sec that by (simp add: cp1_def lookup_section_update_update option_value_plain \<open>l0 = v\<close>)
  qed
  from run others m1 plain show ?thesis by blast
qed

lemma read_text_step:
  "read_lines (split_on (CHR 0x0A) (blk @ CHR 0x0A # rest)) st
     = (case read_lines (split_on (CHR 0x0A) blk) st of
          None \<Rightarrow> None
        | Some st' \<Rightarrow> read_lines (split_on (CHR 0x0A) rest) st')"
  by (simp add: split_on_append read_lines_append)

lemma descriptor_keys:
  "plain_key ''user''" "plain_key ''assignment''" "plain_key ''uploadtime''"
  "plain_key ''courseid''" "plain_key ''resultsdest''" "plain_key ''remoteusername''"
  "plain_key ''remotehostname''"
  "lower ''User'' = ''user''" "lower ''Assignment'' = ''assignment''"
  "lower ''UploadTime'' = ''uploadtime''" "lower ''CourseID'' = ''courseid''"
  "lower ''ResultsDest'' = ''resultsdest''" "lower ''RemoteUsername'' = ''remoteusername''"
  "lower ''RemoteHostname'' = ''remotehostname''"
  by code_simp+

lemma submission_config_text:
  "config_write (submission_config user assignment course_id upload_time rd ru rh)
     = ''[Assignment]'' @ CHR 0x0A #
       ((''user'' @ '' = '' @ replace_newlines user) @ CHR 0x0A #
       ((''assignment'' @ '' = '' @ replace_newlines assignment) @ CHR 0x0A #
       ((''uploadtime'' @ '' = '' @ replace_newlines upload_time) @ CHR 0x0A #
       ((''courseid'' @ '' = '' @ replace_newlines course_id) @ CHR 0x0A #
       ((''resultsdest'' @ '' = '' @ replace_newlines rd) @ CHR 0x0A #
       ((''remoteusername'' @ '' = '' @ replace_newlines ru) @ CHR 0x0A #
       ((''remotehostname'' @ '' = '' @ replace_newlines rh) @ CHR 0x0A #
       ([] @ CHR 0x0A # []))))))))"
  by (simp add: submission_config_def add_section_def set_option_def section_update_def
        descriptor_keys config_write_def write_section_def write_option_def Let_def)


lemma descriptor_read_back:
  "\<exists>cp. config_read (config_write
            (submission_config user assignment course_id upload_time rd ru rh)) = Some cp
     \<and> (plain_value user \<longrightarrow> lookup_option cp ''Assignment'' ''user'' = Some user)
     \<and> (plain_value assignment \<longrightarrow> lookup_option cp ''Assignment'' ''assignment'' = Some assignment)
     \<and> (plain_value upload_time \<longrightarrow> lookup_option cp ''Assignment'' ''uploadtime'' = Some upload_time)
     \<and> (plain_value course_id \<longrightarrow> lookup_option cp ''Assignment'' ''courseid'' = Some course_id)"
proof -
  let ?s = "''Assignment''"
  have h0: "read_lines (split_on (CHR 0x0A) ''[Assignment]'') ([], None, None)
      = Some ([(?s, [])], Some ?s, None)"
    by code_simp
  have m0: "map_of [(?s, [])] ?s \<noteq> None"
    by simp
  from read_written_option [OF descriptor_keys(1) m0, of user None] obtain cp1 where
    r1: "read_lines (split_on (CHR 0x0A) (''user'' @ '' = '' @ replace_newlines user))
           ([(?s, [])], Some ?s, None) = Some (cp1, Some ?s, Some ''user'')"
    and m1: "map_of cp1 ?s \<noteq> None"
    and v1: "plain_value user \<longrightarrow> lookup_option cp1 ?s ''user'' = Some user"
    by blast
  from read_written_option [OF descriptor_keys(2) m1, of assignment "Some ''user''"] obtain cp2 where
    r2: "read_lines (split_on (CHR 0x0A) (''assignment'' @ '' = '' @ replace_newlines assignment))
           (cp1, Some ?s, Some ''user'') = Some (cp2, Some ?s, Some ''assignment'')"
    and k2: "\<forall>k'. k' \<noteq> ''assignment'' \<longrightarrow> lookup_option cp2 ?s k' = lookup_option cp1 ?s k'"
    and m2: "map_of cp2 ?s \<noteq> None"
    and v2: "plain_value assignment \<longrightarrow> lookup_option cp2 ?s ''assignment'' = Some assignment"
    by blast
  from read_written_option [OF descriptor_keys(3) m2, of upload_time "Some ''assignment''"]
  obtain cp3 where
    r3: "read_lines (split_on (CHR 0x0A) (''uploadtime'' @ '' = '' @ replace_newlines upload_time))
           (cp2, Some ?s, Some ''assignment'') = Some (cp3, Some ?s, Some ''uploadtime'')"
    and k3: "\<forall>k'. k' \<noteq> ''uploadtime'' \<longrightarrow> lookup_option cp3 ?s k' = lookup_option cp2 ?s k'"
    and m3: "map_of cp3 ?s \<noteq> None"
    and v3: "plain_value upload_time \<longrightarrow> lookup_option cp3 ?s ''uploadtime'' = Some upload_time"
    by blast
  from read_written_option [OF descriptor_keys(4) m3, of course_id "Some ''uploadtime''"]
  obtain cp4 where
    r4: "read_lines (split_on (CHR 0x0A) (''courseid'' @ '' = '' @ replace_newlines course_id))
           (cp3, Some ?s, Some ''uploadtime'') = Some (cp4, Some ?s, Some ''courseid'')"
    and k4: "\<forall>k'. k' \<noteq> ''courseid'' \<longrightarrow> lookup_option cp4 ?s k' = lookup_option cp3 ?s k'"
    and m4: "map_of cp4 ?s \<noteq> None"
    and v4: "plain_value course_id \<longrightarrow> lookup_option cp4 ?s ''courseid'' = Some course_id"
    by blast
  from read_written_option [OF descriptor_keys(5) m4, of rd "Some ''courseid''"]
  obtain cp5 where
    r5: "read_lines (split_on (CHR 0x0A) (''resultsdest'' @ '' = '' @ replace_newlines rd))
           (cp4, Some ?s, Some ''courseid'') = Some (cp5, Some ?s, Some ''resultsdest'')"
    and k5: "\<forall>k'. k' \<noteq> ''resultsdest'' \<longrightarrow> lookup_option cp5 ?s k' = lookup_option cp4 ?s k'"
    and m5: "map_of cp5 ?s \<noteq> None"
    by blast
  from read_written_option [OF descriptor_keys(6) m5, of ru "Some ''resultsdest''"]
  obtain cp6 where
    r6: "read_lines (split_on (CHR 0x0A) (''remoteusername'' @ '' = '' @ replace_newlines ru))
           (cp5, Some ?s, Some ''resultsdest'') = Some (cp6, Some ?s, Some ''remoteusername'')"
    and k6: "\<forall>k'. k' \<noteq> ''remoteusername'' \<longrightarrow> lookup_option cp6 ?s k' = lookup_option cp5 ?s k'"
    and m6: "map_of cp6 ?s \<noteq> None"
    by blast
  from read_written_option [OF descriptor_keys(7) m6, of rh "Some ''remoteusername''"]
  obtain cp7 where
    r7: "read_lines (split_on (CHR 0x0A) (''remotehostname'' @ '' = '' @ replace_newlines rh))
           (cp6, Some ?s, Some ''remoteusername'') = Some (cp7, Some ?s, Some ''remotehostname'')"
    and k7: "\<forall>k'. k' \<noteq> ''remotehostname'' \<longrightarrow> lookup_option cp7 ?s k' = lookup_option cp6 ?s k'"
    by blast
  have blank: "read_lines (split_on (CHR 0x0A) []) st = Some st" for st
    by (cases st) (simp add: read_line_def)
  have rd: "config_read (config_write
      (submission_config user assignment course_id upload_time rd ru rh)) = Some cp7"
    unfolding config_read_def submission_config_text
    by (simp only: read_text_step h0 r1 r2 r3 r4 r5 r6 r7 blank option.case fst_conv)
  have c1: "lookup_option cp7 ?s ''user'' = lookup_option cp1 ?s ''user''"
    using k2 k3 k4 k5 k6 k7 by simp
  have c2: "lookup_option cp7 ?s ''assignment'' = lookup_option cp2 ?s ''assignment''"
    using k3 k4 k5 k6 k7 by simp
  have c3: "lookup_option cp7 ?s ''uploadtime'' = lookup_option cp3 ?s ''uploadtime''"
    using k4 k5 k6 k7 by simp
  have c4: "lookup_option cp7 ?s ''courseid'' = lookup_option cp4 ?s ''courseid''"
    using k5 k6 k7 by simp
  from rd v1 v2 v3 v4 c1 c2 c3 c4 show ?thesis by simp
qed

subsection \<open>The bundle\<close>

lemma unused_name_free:
  "unused_name w dir pre suf ns = Some (p, ns') \<Longrightarrow> fs w p = None"
  by (induction ns) (auto split: if_splits)

lemma mkstemp_ok:
  "mkstemp suf pre dir w = (Inr p, w') \<Longrightarrow>
     fs w p = None \<and> fs w' = (fs w)(p \<mapsto> File (Raw [])) \<and> remote w' = remote w"
  by (auto simp: mkstemp_def split: if_splits option.splits dest: unused_name_free)

lemma mkdtemp_ok:
  "mkdtemp pre dir w = (Inr p, w') \<Longrightarrow> fs w p = None \<and> fs w' = (fs w)(p \<mapsto> Dir)"
  by (auto simp: mkdtemp_def split: if_splits option.splits dest: unused_name_free)

lemma read_sources_names:
  "read_sources w fl = Inr es \<Longrightarrow> map fst es = map fst fl"
  by (induction w fl arbitrary: es rule: read_sources.induct)
     (auto split: option.splits node.splits sum.splits)

lemma read_sources_lookup:
  "read_sources w fl = Inr es \<Longrightarrow> map_of fl k = Some src \<Longrightarrow>
     \<exists>c. fs w src = Some (File c) \<and> map_of es k = Some c"
  by (induction w fl arbitrary: es rule: read_sources.induct)
     (auto split: option.splits node.splits sum.splits if_splits)

lemma create_zip_ok:
  "create_zip h fl w = (Inr u, w') \<Longrightarrow>
     \<exists>es. read_sources w fl = Inr es \<and> fs w' = (fs w)(h \<mapsto> File (Zip es)) \<and> remote w' = remote w"
  by (auto simp: create_zip_def split: sum.splits)

lemma create_testing_bundle_ok:
  assumes "create_testing_bundle d user assignment course_id w = (Inr bundle_path, w')"
  shows "\<exists>es. fs w' bundle_path = Some (File (Zip es))
          \<and> map fst es = [''build.sh'', ''run.sh'', ''archive.zip'', ''tests.zip'',
                           ''submission-config'', ''course-config'']
          \<and> (\<forall>x. fs w (abspath d (root_path (course_config d course_id))
                          (submission_config_file
                             (dir_submission_root d (root_path (course_config d course_id))
                                assignment user))) = Some (File x)
                 \<longrightarrow> map_of es ''submission-config'' = Some x)"
proof -
  let ?cfg = "course_config d course_id"
  let ?root = "root_path ?cfg"
  let ?sbroot = "dir_submission_root d ?root assignment user"
  let ?fl = "map (\<lambda>(dst, src). (dst, abspath d ?root src))
      [(''build.sh'', build_script ?cfg (asg_machine ?cfg assignment)),
       (''run.sh'', run_script ?cfg (asg_machine ?cfg assignment)),
       (''archive.zip'', submission_archive_file ?sbroot),
       (''tests.zip'', asg_tests_path ?cfg assignment),
       (''submission-config'', submission_config_file ?sbroot),
       (''course-config'', config_file d ?root)]"
  let ?w0 = "w\<lparr>locks := assignment # locks w\<rparr>"
  obtain r1 w1 where m: "mkstemp ''.zip'' (course_id @ ''_'' @ assignment @ ''_'' @ user @ ''_'')
      (dir_unchecked d ?root) ?w0 = (r1, w1)"
    by (cases "mkstemp ''.zip'' (course_id @ ''_'' @ assignment @ ''_'' @ user @ ''_'')
      (dir_unchecked d ?root) ?w0")
  from assms m obtain p where r1: "r1 = Inr p"
    by (cases r1) (auto simp: create_testing_bundle_def with_lock_def Let_def)
  obtain r2 w2 where z: "create_zip p ?fl w1 = (r2, w2)"
    by (cases "create_zip p ?fl w1")
  from assms m r1 z obtain u where r2: "r2 = Inr u"
    by (cases r2) (auto simp: create_testing_bundle_def with_lock_def Let_def)
  have bp: "bundle_path = p" and w': "fs w' = fs w2"
    using assms m r1 z r2 by (auto simp: create_testing_bundle_def with_lock_def Let_def)
  from mkstemp_ok [OF m [unfolded r1]] have free: "fs w p = None"
    and fs1: "fs w1 = (fs w)(p \<mapsto> File (Raw []))"
    by simp_all
  from create_zip_ok [OF z [unfolded r2]] obtain es where
    rs: "read_sources w1 ?fl = Inr es" and fs2: "fs w2 = (fs w1)(p \<mapsto> File (Zip es))"
    by blast
  have names: "map fst es = [''build.sh'', ''run.sh'', ''archive.zip'', ''tests.zip'',
                           ''submission-config'', ''course-config'']"
    using read_sources_names [OF rs] by simp
  have look: "map_of es ''submission-config'' = Some x"
    if "fs w (abspath d ?root (submission_config_file ?sbroot)) = Some (File x)" for x
  proof -
    have "map_of ?fl ''submission-config'' = Some (abspath d ?root (submission_config_file ?sbroot))"
      by simp
    from read_sources_lookup [OF rs this] obtain c where
      c: "fs w1 (abspath d ?root (submission_config_file ?sbroot)) = Some (File c)"
      and l: "map_of es ''submission-config'' = Some c"
      by blast
    have "abspath d ?root (submission_config_file ?sbroot) \<noteq> p"
      using that free by auto
    with c that have "c = x" by (simp add: fs1)
    with l show ?thesis by simp
  qed
  from names look show ?thesis
    by (simp add: bp w' fs2)
qed

lemma ssh_bundle_ok:
  "ssh_bundle bundle_path cfg assignment w = (Inr u, w') \<Longrightarrow>
     \<exists>c. fs w bundle_path = Some (File c) \<and> fs w' = fs w
        \<and> remote w' (queue_path cfg (tester cfg (asg_machine cfg assignment)) @ [last bundle_path])
            = Some c"
  by (auto simp: ssh_bundle_def Let_def split: if_splits option.splits node.splits)

lemma submission_backup_ok_descriptor:
  assumes "submission_backup back_dir archive_filename sbcfg w = (Inr u, w')"
  shows "fs w' (submission_config_file back_dir) = Some (File (Raw (config_write sbcfg)))"
proof -
  obtain r1 w1 where e1:
    "(if \<not> path_exists w back_dir then makedirs back_dir w else (Inr (), w)) = (r1, w1)"
    by (cases "if \<not> path_exists w back_dir then makedirs back_dir w else (Inr (), w)")
  from assms e1 obtain u1 where r1: "r1 = Inr u1"
    by (cases r1) (auto simp: submission_backup_def Let_def)
  obtain r2 w2 where e2: "copyfile archive_filename (submission_archive_file back_dir) w1 = (r2, w2)"
    by (cases "copyfile archive_filename (submission_archive_file back_dir) w1")
  from assms e1 r1 e2 obtain u2 where r2: "r2 = Inr u2"
    by (cases r2) (auto simp: submission_backup_def Let_def)
  obtain r3 w3 where e3: "write_file (submission_config_file back_dir) (Raw (config_write sbcfg)) w2 = (r3, w3)"
    by (cases "write_file (submission_config_file back_dir) (Raw (config_write sbcfg)) w2")
  from assms e1 r1 e2 r2 e3 obtain u3 where r3: "r3 = Inr u3"
    by (cases r3) (auto simp: submission_backup_def Let_def)
  have un: "unzip_safely archive_filename (dir_submission_expanded_archive back_dir) w3 = (Inr u, w')"
    using assms e1 r1 e2 r2 e3 r3 by (simp add: submission_backup_def Let_def)
  have "fs w3 (submission_config_file back_dir) = Some (File (Raw (config_write sbcfg)))"
    using write_file_ok [OF e3 [unfolded r3]] by simp
  with unzip_safely_frame [OF un, of "submission_config_file back_dir"] show ?thesis
    by (auto simp: backup_paths_simps)
qed

lemma popen_wait_git_fs:
  "popen_wait git_program argv cwd w = (r, w') \<Longrightarrow> fs w' = fs w"
  by (auto simp: popen_wait_def git_program_def split: if_splits prod.splits)

lemma submission_git_commit_fs:
  "submission_git_commit dest user assignment w = (r, w') \<Longrightarrow> fs w' = fs w"
  by (auto simp: submission_git_commit_def split: prod.splits sum.splits)
     (metis popen_wait_git_fs)+

lemma save_submission_in_storer_ok:
  assumes "save_submission_in_storer d archive_filename user assignment course_id upload_time w
             = (Inr u, w')"
  shows "fs w' (submission_config_file
                  (dir_submission_root d (root_path (course_config d course_id)) assignment user))
         = Some (File (Raw (config_write (submission_config user assignment course_id upload_time
              (dir_submission_results d
                 (dir_submission_root d (root_path (course_config d course_id)) assignment user))
              (storer_username (course_config d course_id))
              (storer_hostname (course_config d course_id))))))"
proof -
  let ?cfg = "course_config d course_id"
  let ?root = "root_path ?cfg"
  let ?dest = "dir_submission_root d ?root assignment user"
  let ?sbcfg = "submission_config user assignment course_id upload_time
      (dir_submission_results d ?dest) (storer_username ?cfg) (storer_hostname ?cfg)"
  let ?body = "\<lambda>w3. case (if path_exists w3 ?dest then rmtree ?dest w3 else (Inr (), w3)) of
       (Inl e, w4) \<Rightarrow> (Inl e, w4)
     | (Inr u', w4) \<Rightarrow>
         (case submission_backup ?dest archive_filename ?sbcfg w4 of
            (Inl e, w5) \<Rightarrow> (Inl e, w5)
          | (Inr u'', w5) \<Rightarrow>
              submission_git_commit (dir_submission_expanded_archive ?dest) user assignment w5)"
  obtain r1 w1 where e1: "mkdtemp (submission_backup_prefix course_id assignment user upload_time)
      (dir_backup d ?root) w = (r1, w1)"
    by (cases "mkdtemp (submission_backup_prefix course_id assignment user upload_time)
      (dir_backup d ?root) w")
  from assms e1 obtain back_dir where r1: "r1 = Inr back_dir"
    by (cases r1) (auto simp: save_submission_in_storer_def Let_def)
  obtain r2 w2 where e2: "submission_backup back_dir archive_filename ?sbcfg w1 = (r2, w2)"
    by (cases "submission_backup back_dir archive_filename ?sbcfg w1")
  from assms e1 r1 e2 obtain u2 where r2: "r2 = Inr u2"
    by (cases r2) (auto simp: save_submission_in_storer_def Let_def)
  have locked: "with_lock assignment ?body w2 = (Inr u, w')"
    using assms e1 r1 e2 r2 by (simp add: save_submission_in_storer_def Let_def)
  obtain rb wb where eb: "?body (w2\<lparr>locks := assignment # locks w2\<rparr>) = (rb, wb)"
    by (cases "?body (w2\<lparr>locks := assignment # locks w2\<rparr>)")
  have rb: "rb = Inr u" and wb: "fs w' = fs wb"
    using locked eb by (auto simp: with_lock_def)
  obtain r4 w4 where e4: "(if path_exists (w2\<lparr>locks := assignment # locks w2\<rparr>) ?dest
        then rmtree ?dest (w2\<lparr>locks := assignment # locks w2\<rparr>)
        else (Inr (), w2\<lparr>locks := assignment # locks w2\<rparr>)) = (r4, w4)"
    by (cases "if path_exists (w2\<lparr>locks := assignment # locks w2\<rparr>) ?dest
        then rmtree ?dest (w2\<lparr>locks := assignment # locks w2\<rparr>)
        else (Inr (), w2\<lparr>locks := assignment # locks w2\<rparr>)")
  from eb rb e4 obtain u4 where r4: "r4 = Inr u4"
    by (cases r4) auto
  obtain r5 w5 where e5: "submission_backup ?dest archive_filename ?sbcfg w4 = (r5, w5)"
    by (cases "submission_backup ?dest archive_filename ?sbcfg w4")
  from eb rb e4 r4 e5 obtain u5 where r5: "r5 = Inr u5"
    by (cases r5) auto
  have git: "submission_git_commit (dir_submission_expanded_archive ?dest) user assignment w5
      = (Inr u, wb)"
    using eb rb e4 r4 e5 r5 by simp
  have "fs w5 (submission_config_file ?dest) = Some (File (Raw (config_write ?sbcfg)))"
    using submission_backup_ok_descriptor [OF e5 [unfolded r5]] .
  with submission_git_commit_fs [OF git] wb show ?thesis by simp
qed


text \<open>
  C9, as the code has it. Every bundle that \<^verbatim>\<open>create_testing_bundle\<close> returns is a zip
  archive whose entries are exactly \<^verbatim>\<open>build.sh\<close>, \<^verbatim>\<open>run.sh\<close>, \<^verbatim>\<open>archive.zip\<close>,
  \<^verbatim>\<open>tests.zip\<close>, \<^verbatim>\<open>submission-config\<close> and \<^verbatim>\<open>course-config\<close>. For the bundle
  built after the store of a submission, as \<^verbatim>\<open>submit\<close> does (its result is then that
  of sending this bundle), the entry \<^verbatim>\<open>submission-config\<close> decodes to the user, the
  assignment, the course and the upload time of the submission, each on the condition
  that the value is one that the configuration reader gives back unchanged: no line
  feed, no white space at either end, no part taken for a comment, and not a pair of
  double quotes. The path of the descriptor is taken to be absolute, so that
  \<^verbatim>\<open>abspath\<close> returns it as it is.
\<close>

theorem bundle_entries_and_descriptor:
  assumes stored: "save_submission_in_storer d archive_filename user assignment course_id
                     upload_time w = (Inr u, w1)"
    and built: "create_testing_bundle d user assignment course_id w1 = (Inr bundle_path, w2)"
    and abs: "abspath d (root_path (course_config d course_id))
                (submission_config_file
                   (dir_submission_root d (root_path (course_config d course_id)) assignment user))
              = submission_config_file
                   (dir_submission_root d (root_path (course_config d course_id)) assignment user)"
  shows "(\<forall>user0 assignment0 course_id0 w0 bundle_path0 w0'.
            create_testing_bundle d user0 assignment0 course_id0 w0 = (Inr bundle_path0, w0') \<longrightarrow>
            (\<exists>es. fs w0' bundle_path0 = Some (File (Zip es))
                \<and> map fst es = [''build.sh'', ''run.sh'', ''archive.zip'', ''tests.zip'',
                                 ''submission-config'', ''course-config'']))
       \<and> (\<exists>es. fs w2 bundle_path = Some (File (Zip es))
              \<and> map fst es = [''build.sh'', ''run.sh'', ''archive.zip'', ''tests.zip'',
                               ''submission-config'', ''course-config''])
       \<and> (plain_value user \<longrightarrow> bundle_descriptor_option w2 bundle_path ''User'' = Some user)
       \<and> (plain_value assignment \<longrightarrow>
            bundle_descriptor_option w2 bundle_path ''Assignment'' = Some assignment)
       \<and> (plain_value course_id \<longrightarrow>
            bundle_descriptor_option w2 bundle_path ''CourseID'' = Some course_id)
       \<and> (plain_value upload_time \<longrightarrow>
            bundle_descriptor_option w2 bundle_path ''UploadTime'' = Some upload_time)
       \<and> (upload_time = (case forced_upload_time of Some t \<Rightarrow> t
                           | None \<Rightarrow> strftime d (localtime d (clock w)))
            \<and> strptime d upload_time = Some upload_time'
            \<and> upload_active_check d upload_time'
                 (upload_active_interval (course_config d course_id)) = Inr ()
            \<and> ((case forced_upload_time of Some t \<Rightarrow> True | None \<Rightarrow> skip_time_check)
                 \<or> \<not> submitted_too_soon d assignment user (course_config d course_id) w) \<longrightarrow>
            submit d archive_filename assignment user course_id skip_time_check
                forced_upload_time w
              = ssh_bundle bundle_path (course_config d course_id) assignment w2)"
proof -
  let ?cfg = "course_config d course_id"
  let ?root = "root_path ?cfg"
  let ?sbroot = "dir_submission_root d ?root assignment user"
  let ?sbcfg = "submission_config user assignment course_id upload_time
      (dir_submission_results d ?sbroot) (storer_username ?cfg) (storer_hostname ?cfg)"
  let ?six = "[''build.sh'', ''run.sh'', ''archive.zip'', ''tests.zip'',
               ''submission-config'', ''course-config'']"
  have six: "\<exists>es. fs w0' bp = Some (File (Zip es)) \<and> map fst es = ?six"
    if "create_testing_bundle d user0 a0 c0 w0 = (Inr bp, w0')" for user0 a0 c0 w0 bp w0'
    using create_testing_bundle_ok [OF that] by auto
  have desc: "fs w1 (submission_config_file ?sbroot) = Some (File (Raw (config_write ?sbcfg)))"
    using save_submission_in_storer_ok [OF stored] .
  from create_testing_bundle_ok [OF built] desc abs obtain es where
    b1: "fs w2 bundle_path = Some (File (Zip es))"
    and b2: "map fst es = ?six"
    and b3: "map_of es ''submission-config'' = Some (Raw (config_write ?sbcfg))"
    by auto
  from descriptor_read_back [of user assignment course_id upload_time
      "dir_submission_results d ?sbroot" "storer_username ?cfg" "storer_hostname ?cfg"]
  obtain cp where
    rd: "config_read (config_write ?sbcfg) = Some cp"
    and v1: "plain_value user \<longrightarrow> lookup_option cp ''Assignment'' ''user'' = Some user"
    and v2: "plain_value assignment \<longrightarrow> lookup_option cp ''Assignment'' ''assignment'' = Some assignment"
    and v3: "plain_value upload_time \<longrightarrow> lookup_option cp ''Assignment'' ''uploadtime'' = Some upload_time"
    and v4: "plain_value course_id \<longrightarrow> lookup_option cp ''Assignment'' ''courseid'' = Some course_id"
    by blast
  have dec: "bundle_descriptor_option w2 bundle_path k = lookup_option cp ''Assignment'' (lower k)" for k
    by (simp add: bundle_descriptor_option_def b1 b3 decode_option_def rd get_option_def)
  have link: "upload_time = (case forced_upload_time of Some t \<Rightarrow> t
                           | None \<Rightarrow> strftime d (localtime d (clock w)))
            \<and> strptime d upload_time = Some upload_time'
            \<and> upload_active_check d upload_time'
                 (upload_active_interval (course_config d course_id)) = Inr ()
            \<and> ((case forced_upload_time of Some t \<Rightarrow> True | None \<Rightarrow> skip_time_check)
                 \<or> \<not> submitted_too_soon d assignment user (course_config d course_id) w) \<longrightarrow>
            submit d archive_filename assignment user course_id skip_time_check
                forced_upload_time w
              = ssh_bundle bundle_path (course_config d course_id) assignment w2"
    using stored built
    by (auto simp: submit_def queue_for_testing_def Let_def split: option.splits)
  have all: "\<forall>user0 assignment0 course_id0 w0 bundle_path0 w0'.
            create_testing_bundle d user0 assignment0 course_id0 w0 = (Inr bundle_path0, w0') \<longrightarrow>
            (\<exists>es. fs w0' bundle_path0 = Some (File (Zip es)) \<and> map fst es = ?six)"
    using six by auto
  have e: "\<exists>es. fs w2 bundle_path = Some (File (Zip es)) \<and> map fst es = ?six"
    using b1 b2 by auto
  have d1: "plain_value user \<longrightarrow> bundle_descriptor_option w2 bundle_path ''User'' = Some user"
    using v1 by (simp add: dec descriptor_keys)
  have d2: "plain_value assignment \<longrightarrow>
            bundle_descriptor_option w2 bundle_path ''Assignment'' = Some assignment"
    using v2 by (simp add: dec descriptor_keys)
  have d3: "plain_value course_id \<longrightarrow>
            bundle_descriptor_option w2 bundle_path ''CourseID'' = Some course_id"
    using v4 by (simp add: dec descriptor_keys)
  have d4: "plain_value upload_time \<longrightarrow>
            bundle_descriptor_option w2 bundle_path ''UploadTime'' = Some upload_time"
    using v3 by (simp add: dec descriptor_keys)
  show ?thesis
    by (intro conjI) (fact all e d1 d2 d3 d4 link)+
qed


theorem bundle_entries_and_descriptor_witness:
  "fst (save_submission_in_storer demo_deps [''tmp'', ''hw1.zip''] ''alice'' ''lab1'' ''so''
          ''2010.03.05 01:08:54'' demo_world) = Inr ()
   \<and> fst (create_testing_bundle demo_deps ''alice'' ''lab1'' ''so''
            (snd (save_submission_in_storer demo_deps [''tmp'', ''hw1.zip''] ''alice'' ''lab1''
                    ''so'' ''2010.03.05 01:08:54'' demo_world)))
       = Inr [''srv'', ''so'', ''unchecked'', ''so_lab1_alice_Qx81aB.zip'']
   \<and> plain_value ''alice'' \<and> plain_value ''lab1'' \<and> plain_value ''so''
   \<and> plain_value ''2010.03.05 01:08:54''
   \<and> bundle_descriptor_option
         (snd (create_testing_bundle demo_deps ''alice'' ''lab1'' ''so''
            (snd (save_submission_in_storer demo_deps [''tmp'', ''hw1.zip''] ''alice'' ''lab1''
                    ''so'' ''2010.03.05 01:08:54'' demo_world))))
         [''srv'', ''so'', ''unchecked'', ''so_lab1_alice_Qx81aB.zip''] ''User'' = Some ''alice''
   \<and> bundle_descriptor_option
         (snd (create_testing_bundle demo_deps ''alice'' ''lab1'' ''so''
            (snd (save_submission_in_storer demo_deps [''tmp'', ''hw1.zip''] ''alice'' ''lab1''
                    ''so'' ''2010.03.05 01:08:54'' demo_world))))
         [''srv'', ''so'', ''unchecked'', ''so_lab1_alice_Qx81aB.zip''] ''Assignment'' = Some ''lab1''
   \<and> bundle_descriptor_option
         (snd (create_testing_bundle demo_deps ''alice'' ''lab1'' ''so''
            (snd (save_submission_in_storer demo_deps [''tmp'', ''hw1.zip''] ''alice'' ''lab1''
                    ''so'' ''2010.03.05 01:08:54'' demo_world))))
         [''srv'', ''so'', ''unchecked'', ''so_lab1_alice_Qx81aB.zip''] ''CourseID'' = Some ''so''
   \<and> bundle_descriptor_option
         (snd (create_testing_bundle demo_deps ''alice'' ''lab1'' ''so''
            (snd (save_submission_in_storer demo_deps [''tmp'', ''hw1.zip''] ''alice'' ''lab1''
                    ''so'' ''2010.03.05 01:08:54'' demo_world))))
         [''srv'', ''so'', ''unchecked'', ''so_lab1_alice_Qx81aB.zip''] ''UploadTime''
       = Some ''2010.03.05 01:08:54''
   \<and> submit demo_deps [''tmp'', ''hw1.zip''] ''lab1'' ''alice'' ''so'' False None demo_world
       = ssh_bundle [''srv'', ''so'', ''unchecked'', ''so_lab1_alice_Qx81aB.zip'']
           (course_config demo_deps ''so'') ''lab1''
           (snd (create_testing_bundle demo_deps ''alice'' ''lab1'' ''so''
              (snd (save_submission_in_storer demo_deps [''tmp'', ''hw1.zip''] ''alice'' ''lab1''
                      ''so'' ''2010.03.05 01:08:54'' demo_world))))"
proof -
  let ?bp = "[''srv'', ''so'', ''unchecked'', ''so_lab1_alice_Qx81aB.zip'']"
  let ?save = "save_submission_in_storer demo_deps [''tmp'', ''hw1.zip''] ''alice'' ''lab1'' ''so''
                 ''2010.03.05 01:08:54'' demo_world"
  let ?build = "create_testing_bundle demo_deps ''alice'' ''lab1'' ''so'' (snd ?save)"
  have e1: "fst ?save = Inr ()"
    by code_simp
  have e2: "fst ?build = Inr ?bp"
    by code_simp
  have h1: "?save = (Inr (), snd ?save)"
    using e1 by (metis prod.collapse)
  have h2: "?build = (Inr ?bp, snd ?build)"
    using e2 by (metis prod.collapse)
  have h3: "abspath demo_deps (root_path (course_config demo_deps ''so''))
                (submission_config_file
                   (dir_submission_root demo_deps (root_path (course_config demo_deps ''so''))
                      ''lab1'' ''alice''))
              = submission_config_file
                   (dir_submission_root demo_deps (root_path (course_config demo_deps ''so''))
                      ''lab1'' ''alice'')"
    by code_simp
  have pl: "plain_value ''alice''" "plain_value ''lab1''" "plain_value ''so''"
    "plain_value ''2010.03.05 01:08:54''"
    by code_simp+
  have pre: "''2010.03.05 01:08:54'' = (case None of Some t \<Rightarrow> t
                | None \<Rightarrow> strftime demo_deps (localtime demo_deps (clock demo_world)))
       \<and> strptime demo_deps ''2010.03.05 01:08:54'' = Some (2010, 3, 5, 1, 8, 54, 4, 64, -1)
       \<and> upload_active_check demo_deps (2010, 3, 5, 1, 8, 54, 4, 64, -1)
            (upload_active_interval (course_config demo_deps ''so'')) = Inr ()
       \<and> ((case None of Some t \<Rightarrow> True | None \<Rightarrow> False)
            \<or> \<not> submitted_too_soon demo_deps ''lab1'' ''alice'' (course_config demo_deps ''so'')
                  demo_world)"
    by code_simp
  note t = bundle_entries_and_descriptor [OF h1 h2 h3, where forced_upload_time = None
      and skip_time_check = False and upload_time' = "(2010, 3, 5, 1, 8, 54, 4, 64, -1)"]
  note c = t [THEN conjunct2, THEN conjunct2]
  have d1: "bundle_descriptor_option (snd ?build) ?bp ''User'' = Some ''alice''"
    using c [THEN conjunct1] pl(1) by (rule mp)
  have d2: "bundle_descriptor_option (snd ?build) ?bp ''Assignment'' = Some ''lab1''"
    using c [THEN conjunct2, THEN conjunct1] pl(2) by (rule mp)
  have d3: "bundle_descriptor_option (snd ?build) ?bp ''CourseID'' = Some ''so''"
    using c [THEN conjunct2, THEN conjunct2, THEN conjunct1] pl(3) by (rule mp)
  have d4: "bundle_descriptor_option (snd ?build) ?bp ''UploadTime'' = Some ''2010.03.05 01:08:54''"
    using c [THEN conjunct2, THEN conjunct2, THEN conjunct2, THEN conjunct1] pl(4) by (rule mp)
  have d5: "submit demo_deps [''tmp'', ''hw1.zip''] ''lab1'' ''alice'' ''so'' False None demo_world
       = ssh_bundle ?bp (course_config demo_deps ''so'') ''lab1'' (snd ?build)"
    using c [THEN conjunct2, THEN conjunct2, THEN conjunct2, THEN conjunct2] pre by (rule mp)
  from e1 e2 pl d1 d2 d3 d4 d5 show ?thesis
    by (intro conjI)
qed

text \<open>
  C9 as it is stated fails: in the example installation, the bundle that \<^verbatim>\<open>submit\<close>
  builds for a user whose name is written with a space before and after it decodes to
  the name without the spaces.
\<close>

theorem descriptor_user_not_decoded_the_same:
  "fst (submit demo_deps [''tmp'', ''hw1.zip''] ''lab1'' '' bob '' ''so'' False None demo_world)
     = Inr ()
   \<and> bundle_descriptor_option
        (snd (submit demo_deps [''tmp'', ''hw1.zip''] ''lab1'' '' bob '' ''so'' False None
                demo_world))
        [''srv'', ''so'', ''unchecked'', ''so_lab1_ bob _Qx81aB.zip''] ''User'' = Some ''bob''
   \<and> bundle_descriptor_option
        (snd (submit demo_deps [''tmp'', ''hw1.zip''] ''lab1'' '' bob '' ''so'' False None
                demo_world))
        [''srv'', ''so'', ''unchecked'', ''so_lab1_ bob _Qx81aB.zip''] ''User'' \<noteq> Some '' bob ''"
  by code_simp

subsection \<open>Failures while storing, bundling and watching the queue\<close>

text \<open>
  C3. The claim is that a bundle file is removed when its assembly fails. Evaluated in
  the example installation without the tests of \<^verbatim>\<open>lab1\<close>: \<^verbatim>\<open>create_zip\<close> fails on
  the missing source, \<^verbatim>\<open>create_testing_bundle\<close> raises the \<^verbatim>\<open>IOError\<close>, and the file
  that \<^verbatim>\<open>mkstemp\<close> created in the directory of unchecked bundles, absent before the
  call, is still there after it.
\<close>

theorem bundle_left_behind_on_failure:
  "fs demo_world_no_tests [''srv'', ''so'', ''unchecked'', ''so_lab1_alice_juSZr9.zip''] = None
   \<and> fst (create_testing_bundle demo_deps ''alice'' ''lab1'' ''so'' demo_world_no_tests) = Inl IOError
   \<and> fs (snd (create_testing_bundle demo_deps ''alice'' ''lab1'' ''so'' demo_world_no_tests))
        [''srv'', ''so'', ''unchecked'', ''so_lab1_alice_juSZr9.zip''] = Some (File (Raw []))"
  by code_simp

text \<open>
  C4. The claim is that a failure of the commit stops the pipeline before a bundle is
  built or sent. Evaluated in the example installation when the repository directory is
  not a git work tree: \<^verbatim>\<open>git commit\<close> exits with status 128 and records no commit,
  and \<^verbatim>\<open>submit\<close> still returns normally, having created the bundle and put it into
  the queue of the tester.
\<close>

theorem commit_failure_does_not_stop_submit:
  "fst (git_program [''git'', ''commit'', ''--allow-empty'', ''.'', ''-m x'']
          [''srv'', ''so'', ''repo'', ''lab1'', ''alice'', ''archive''] demo_world_no_repo) = 128
   \<and> fst (submit demo_deps [''tmp'', ''hw1.zip''] ''lab1'' ''alice'' ''so'' False None
            demo_world_no_repo) = Inr ()
   \<and> commits (snd (submit demo_deps [''tmp'', ''hw1.zip''] ''lab1'' ''alice'' ''so'' False None
            demo_world_no_repo)) = []
   \<and> fs (snd (submit demo_deps [''tmp'', ''hw1.zip''] ''lab1'' ''alice'' ''so'' False None
            demo_world_no_repo)) [''srv'', ''so'', ''unchecked'', ''so_lab1_alice_Qx81aB.zip'']
       \<noteq> None
   \<and> remote (snd (submit demo_deps [''tmp'', ''hw1.zip''] ''lab1'' ''alice'' ''so'' False None
            demo_world_no_repo)) [''home'', ''vmchecker'', ''queue'', ''so_lab1_alice_Qx81aB.zip'']
       \<noteq> None"
  by code_simp

text \<open>
  C5. The claim is that the watcher hands the workspace to the commander and removes the
  workspace also when a step fails. Evaluated on the example tester: for a queue file
  that is not a zip archive, \<^verbatim>\<open>unzip\<close> exits with status 9, the handler raises
  \<^verbatim>\<open>CalledProcessError\<close> and the workspace created for the job, absent before, is
  still a directory afterwards; for a bundle, the handler returns normally and the only
  program it has launched is \<^verbatim>\<open>unzip\<close>.
\<close>

theorem workspace_left_behind_on_failure:
  "fs demo_tester_world [''home'', ''vmchecker'', ''unzip-tmp'', ''vmchecker-k3Yw0p''] = None
   \<and> fst (process_IN_CLOSE_WRITE [''home'', ''vmchecker'', ''unzip-tmp''] [''home'', ''vmchecker'']
            ([''home'', ''vmchecker'', ''queue''], ''truncated.zip'') demo_tester_world)
       = Inl (CalledProcessError 9)
   \<and> fs (snd (process_IN_CLOSE_WRITE [''home'', ''vmchecker'', ''unzip-tmp''] [''home'', ''vmchecker'']
            ([''home'', ''vmchecker'', ''queue''], ''truncated.zip'') demo_tester_world))
        [''home'', ''vmchecker'', ''unzip-tmp'', ''vmchecker-k3Yw0p''] = Some Dir
   \<and> fst (process_IN_CLOSE_WRITE [''home'', ''vmchecker'', ''unzip-tmp''] [''home'', ''vmchecker'']
            ([''home'', ''vmchecker'', ''queue''], ''so_lab1_alice_Qx81aB.zip'') demo_tester_world)
       = Inr ()
   \<and> proc_log (snd (process_IN_CLOSE_WRITE [''home'', ''vmchecker'', ''unzip-tmp''] [''home'', ''vmchecker'']
            ([''home'', ''vmchecker'', ''queue''], ''so_lab1_alice_Qx81aB.zip'') demo_tester_world))
       = [([''unzip'', ''-d'', ''/home/vmchecker/unzip-tmp/vmchecker-k3Yw0p'',
            ''/home/vmchecker/queue/so_lab1_alice_Qx81aB.zip''], [''home'', ''vmchecker''])]"
  by code_simp


end
